theory Spec2Isabelle
  imports Main "HOL-Library.Word"
begin

section \<open>Strings and errors\<close>

text \<open>
  Python strings are modelled as \<open>string\<close>. The helpers below are the methods of
  \<open>str\<close> that \<open>records.py\<close> calls: \<open>str.join\<close>, \<open>str.startswith\<close>,
  \<open>str.removeprefix\<close> and \<open>str.removesuffix\<close>.
\<close>

fun join :: "string \<Rightarrow> string list \<Rightarrow> string" where
  "join sep [] = []"
| "join sep [x] = x"
| "join sep (x # y # ys) = x @ sep @ join sep (y # ys)"

definition startswith :: "string \<Rightarrow> string \<Rightarrow> bool" where
  "startswith s p = (take (length p) s = p)"

definition endswith :: "string \<Rightarrow> string \<Rightarrow> bool" where
  "endswith s p = (length p \<le> length s \<and> drop (length s - length p) s = p)"

definition removeprefix :: "string \<Rightarrow> string \<Rightarrow> string" where
  "removeprefix s p = (if startswith s p then drop (length p) s else s)"

definition removesuffix :: "string \<Rightarrow> string \<Rightarrow> string" where
  "removesuffix s p =
     (if p \<noteq> [] \<and> endswith s p then take (length s - length p) s else s)"

text \<open>
  Exceptions are values. The text carried by \<open>TypeError\<close> is the message of the
  exceptions that \<open>records.py\<close> raises itself; for exceptions raised by the interpreter
  or by \<open>inspect\<close> the text is a short description.
\<close>

datatype py_error =
    TypeError string
  | ValueError string
  | AttributeError string
  | NameError string
  | SyntaxError string

abbreviation sq :: char where
  "sq \<equiv> CHR 0x27"

text \<open>
  \<open>repr\<close> of a \<open>str\<close> that is an identifier: the text between single quotes. (An
  identifier holds no quote, backslash or control character, so nothing is escaped.)
\<close>

definition repr_str :: "string \<Rightarrow> string" where
  "repr_str s = sq # s @ [sq]"

section \<open>Declarations: parameters, annotations, signatures\<close>

text \<open>The five parameter kinds of \<open>inspect.Parameter\<close>, in the order of their ranks.\<close>

datatype kind =
    POSITIONAL_ONLY
  | POSITIONAL_OR_KEYWORD
  | VAR_POSITIONAL
  | KEYWORD_ONLY
  | VAR_KEYWORD

fun kind_rank :: "kind \<Rightarrow> nat" where
  "kind_rank POSITIONAL_ONLY = 0"
| "kind_rank POSITIONAL_OR_KEYWORD = 1"
| "kind_rank VAR_POSITIONAL = 2"
| "kind_rank KEYWORD_ONLY = 3"
| "kind_rank VAR_KEYWORD = 4"

fun kind_description :: "kind \<Rightarrow> string" where
  "kind_description POSITIONAL_ONLY = ''positional-only''"
| "kind_description POSITIONAL_OR_KEYWORD = ''positional or keyword''"
| "kind_description VAR_POSITIONAL = ''variadic positional''"
| "kind_description KEYWORD_ONLY = ''keyword-only''"
| "kind_description VAR_KEYWORD = ''variadic keyword''"

text \<open>
  An annotation is either deferred text (a \<open>str\<close>) or an object: a named type, the
  object \<open>None\<close>, the generic aliases \<open>tuple[T]\<close> and \<open>dict[K, V]\<close>, or
  \<open>typing.Unpack[T]\<close> (whose \<open>__args__\<close> is the one-element tuple \<open>(T,)\<close>).
\<close>

datatype annotation =
    Text string
  | Name string
  | NoneObject
  | Tuple_of annotation
  | Dict_of annotation annotation
  | Unpack_of annotation

record 'v parameter =
  pname :: string
  pkind :: kind
  pdefault :: "'v option"
  pannotation :: "annotation option"

text \<open>
  The decorated function, as \<open>inspect.signature\<close> and its attributes show it.
  \<open>f_return_annotation = None\<close> is \<open>inspect.Signature.empty\<close>; \<open>Some NoneObject\<close> is
  the annotation \<open>-> None\<close>. The function comes from a \<open>def\<close> statement, so its name
  and the names of its parameters are identifiers. Parameter names that begin with two
  underscores and the name \<open>object\<close> are outside the model: in the generated class
  body the former are mangled or collide with attributes of the class, and the latter
  shadows the built-in that the generated initializer calls.
\<close>

record 'v func =
  f_name :: string
  f_qualname :: string
  f_module :: string
  f_doc :: "string option"
  f_parameters :: "'v parameter list"
  f_return_annotation :: "annotation option"

text \<open>
  \<open>func.__annotations__\<close>: the annotated parameters in declared order, then the
  return annotation under the key \<open>return\<close> when there is one.
\<close>

definition func_annotations :: "'v func \<Rightarrow> (string \<times> annotation) list" where
  "func_annotations f =
     List.map_filter (\<lambda>p. map_option (\<lambda>a. (pname p, a)) (pannotation p)) (f_parameters f)
     @ (case f_return_annotation f of None \<Rightarrow> [] | Some r \<Rightarrow> [(''return'', r)])"

text \<open>
  \<open>func.__defaults__\<close> (the defaults of the positional parameters, in order) and
  \<open>func.__kwdefaults__\<close> (the defaults of the keyword-only parameters, by name).
\<close>

definition is_positional :: "'v parameter \<Rightarrow> bool" where
  "is_positional p = (pkind p = POSITIONAL_ONLY \<or> pkind p = POSITIONAL_OR_KEYWORD)"

definition func_defaults :: "'v func \<Rightarrow> 'v list" where
  "func_defaults f = List.map_filter pdefault (filter is_positional (f_parameters f))"

definition func_kwdefaults :: "'v func \<Rightarrow> (string \<times> 'v) list" where
  "func_kwdefaults f =
     List.map_filter (\<lambda>p. map_option (\<lambda>d. (pname p, d)) (pdefault p))
       (filter (\<lambda>p. pkind p = KEYWORD_ONLY) (f_parameters f))"

text \<open>
  The validation of \<open>inspect.Signature.__init__\<close>, which \<open>Signature.replace\<close> runs on
  the new parameter list: kinds must not decrease, a positional parameter without a
  default must not follow one with a default, and no name may occur twice.
\<close>

fun Signature_validate ::
  "'v parameter list \<Rightarrow> kind \<Rightarrow> bool \<Rightarrow> string list \<Rightarrow> py_error + unit" where
  "Signature_validate [] top_kind seen_default params = Inr ()"
| "Signature_validate (param # rest) top_kind seen_default params =
     (if kind_rank (pkind param) < kind_rank top_kind then
        Inl (ValueError (''wrong parameter order: '' @ kind_description top_kind
               @ '' parameter before '' @ kind_description (pkind param) @ '' parameter''))
      else if is_positional param \<and> pdefault param = None \<and> seen_default then
        Inl (ValueError ''non-default argument follows default argument'')
      else if pname param \<in> set params then
        Inl (ValueError (''duplicate parameter name: '' @ repr_str (pname param)))
      else
        Signature_validate rest
          (if kind_rank top_kind < kind_rank (pkind param) then pkind param else top_kind)
          (seen_default \<or> (is_positional param \<and> pdefault param \<noteq> None))
          (params @ [pname param]))"

definition Signature_replace :: "'v parameter list \<Rightarrow> py_error + 'v parameter list" where
  "Signature_replace parameters =
     (case Signature_validate parameters POSITIONAL_ONLY False [] of
        Inl e \<Rightarrow> Inl e
      | Inr _ \<Rightarrow> Inr parameters)"

section \<open>The annotation helpers\<close>

definition make_var_positional_annotation :: "annotation \<Rightarrow> annotation" where
  "make_var_positional_annotation a =
     (case a of
        Text s \<Rightarrow> Text (''tuple['' @ s @ '']'')
      | _ \<Rightarrow> Tuple_of a)"

definition make_var_keyword_annotation :: "annotation \<Rightarrow> annotation" where
  "make_var_keyword_annotation a =
     (case a of
        Text s \<Rightarrow>
          (if startswith s ''Unpack['' then Text (removesuffix (removeprefix s ''Unpack['') '']'')
           else Text (''dict[str, '' @ s @ '']''))
      | Unpack_of t \<Rightarrow> t
      | _ \<Rightarrow> Dict_of (Name ''str'') a)"


section \<open>Python dictionaries with insertion order\<close>

text \<open>
  A \<open>dict\<close> whose iteration order matters is an association list with distinct keys:
  assigning to a key that is present replaces its value in place, assigning to a new key
  appends it.
\<close>

fun dict_set :: "(string \<times> 'a) list \<Rightarrow> string \<Rightarrow> 'a \<Rightarrow> (string \<times> 'a) list" where
  "dict_set [] k v = [(k, v)]"
| "dict_set ((k', v') # kvs) k v =
     (if k' = k then (k, v) # kvs else (k', v') # dict_set kvs k v)"

definition dict_del :: "(string \<times> 'a) list \<Rightarrow> string \<Rightarrow> (string \<times> 'a) list" where
  "dict_del kvs k = filter (\<lambda>kv. fst kv \<noteq> k) kvs"

section \<open>The generated class\<close>

subsection \<open>The text of \<open>__slots__\<close> and its evaluation\<close>

text \<open>
  \<open>record\<close> writes the class as source text and has the interpreter execute it. The
  text placed between the parentheses of \<open>__slots__ = (...)\<close> is \<open>slots_text\<close>: the
  \<open>repr\<close> of the one name followed by a comma when there is exactly one parameter,
  the \<open>repr\<close>s joined by a comma and a space otherwise.
\<close>

definition slots_text :: "'v parameter list \<Rightarrow> string" where
  "slots_text parameters =
     (if length parameters = 1 then repr_str (pname (hd parameters)) @ '',''
      else join '', '' (map (\<lambda>p. repr_str (pname p)) parameters))"

text \<open>
  What the interpreter makes of a parenthesised display of string literals: no item is
  the empty tuple, one literal without a comma is the string itself (parentheses only
  group), and literals separated by commas, with or without a trailing comma, are a
  tuple. Literals are read without escapes; any other text is refused.
\<close>

datatype token = TStr string | TComma

fun tokenize :: "string option \<Rightarrow> string \<Rightarrow> token list option" where
  "tokenize None [] = Some []"
| "tokenize (Some lit) [] = None"
| "tokenize None (c # cs) =
     (if c = CHR '' '' then tokenize None cs
      else if c = CHR '','' then map_option (Cons TComma) (tokenize None cs)
      else if c = sq then tokenize (Some []) cs
      else None)"
| "tokenize (Some lit) (c # cs) =
     (if c = sq then map_option (Cons (TStr lit)) (tokenize None cs)
      else if c = CHR 0x5C \<or> c = CHR 0x0A then None
      else tokenize (Some (lit @ [c])) cs)"

datatype slots_value = SlotStr string | SlotTuple "string list"

fun tuple_items :: "token list \<Rightarrow> string list option" where
  "tuple_items [] = Some []"
| "tuple_items [TStr s] = Some [s]"
| "tuple_items (TStr s # TComma # rest) = map_option (Cons s) (tuple_items rest)"
| "tuple_items _ = None"

fun eval_display :: "token list \<Rightarrow> slots_value option" where
  "eval_display [] = Some (SlotTuple [])"
| "eval_display [TStr s] = Some (SlotStr s)"
| "eval_display (TStr s # TComma # rest) =
     map_option (\<lambda>names. SlotTuple (s # names)) (tuple_items rest)"
| "eval_display _ = None"

definition eval_slots :: "string \<Rightarrow> slots_value option" where
  "eval_slots text = (case tokenize None text of None \<Rightarrow> None | Some toks \<Rightarrow> eval_display toks)"

text \<open>
  Iterating \<open>__slots__\<close> (as \<open>tuple(...)\<close>, \<open>frozenset(...)\<close> and the generator in
  \<open>__hash__\<close> do) yields the names of a tuple, but the characters of a string. The slot
  descriptors the class gets are one per name of a tuple, and one for a whole string.
\<close>

fun iter_slots :: "slots_value \<Rightarrow> string list" where
  "iter_slots (SlotTuple names) = names"
| "iter_slots (SlotStr s) = map (\<lambda>c. [c]) s"

fun slot_names :: "slots_value \<Rightarrow> string list" where
  "slot_names (SlotTuple names) = names"
| "slot_names (SlotStr s) = [s]"

subsection \<open>The initializer\<close>

text \<open>
  The body of the generated \<open>__init__\<close>: one \<open>object.__setattr__(self, 'name', name)\<close>
  per parameter, or \<open>pass\<close> when there is none.
\<close>

datatype stmt = Pass | SetAttr string string

definition init_body :: "'v parameter list \<Rightarrow> stmt list" where
  "init_body parameters =
     (if parameters = [] then [Pass]
      else map (\<lambda>p. SetAttr (pname p) (pname p)) parameters)"

definition self_parameter :: "'v parameter" where
  "self_parameter =
     \<lparr>pname = ''self'', pkind = POSITIONAL_ONLY, pdefault = None, pannotation = None\<rparr>"

definition strip_parameter :: "'v parameter \<Rightarrow> 'v parameter" where
  "strip_parameter param = param\<lparr>pdefault := None, pannotation := None\<rparr>"

subsection \<open>The loops of \<open>record\<close>\<close>

definition adjust_annotation :: "kind \<Rightarrow> annotation \<Rightarrow> annotation" where
  "adjust_annotation k a =
     (if k = VAR_POSITIONAL then make_var_positional_annotation a
      else if k = VAR_KEYWORD then make_var_keyword_annotation a
      else a)"

fun build_annotations ::
  "(string \<times> annotation) list \<Rightarrow> 'v parameter list \<Rightarrow> (string \<times> annotation) list
     \<Rightarrow> (string \<times> annotation) list" where
  "build_annotations proposed [] cls_annotations = cls_annotations"
| "build_annotations proposed (param # rest) cls_annotations =
     (case map_of proposed (pname param) of
        None \<Rightarrow> build_annotations proposed rest cls_annotations
      | Some a \<Rightarrow>
          build_annotations proposed rest
            (dict_set cls_annotations (pname param) (adjust_annotation (pkind param) a)))"

fun build_match_args :: "'v parameter list \<Rightarrow> string list \<Rightarrow> string list" where
  "build_match_args [] match_args = match_args"
| "build_match_args (param # rest) match_args =
     (if pkind param \<in> {VAR_POSITIONAL, KEYWORD_ONLY, VAR_KEYWORD} then match_args
      else build_match_args rest (match_args @ [pname param]))"

subsection \<open>\<open>record\<close>\<close>

record 'v record_type =
  cls_name :: string
  cls_qualname :: string
  cls_module :: string
  cls_doc :: "string option"
  cls_slots :: slots_value
  cls_init_parameters :: "'v parameter list"
  cls_init_body :: "stmt list"
  cls_annotations :: "(string \<times> annotation) list"
  cls_match_args :: "string list"
  cls_init_annotations :: "(string \<times> annotation) list"
  cls_init_defaults :: "'v list"
  cls_init_kwdefaults :: "(string \<times> 'v) list"

definition return_annotation_error :: py_error where
  "return_annotation_error =
     TypeError (''return type annotation can only be '' @ [sq] @ ''None'' @ [sq] @ '' or unset'')"

definition record_fn :: "'v func \<Rightarrow> py_error + 'v record_type" where
  "record_fn func =
     (if f_return_annotation func \<notin> {None, Some NoneObject} then Inl return_annotation_error
      else
        case Signature_replace (self_parameter # map strip_parameter (f_parameters func)) of
          Inl e \<Rightarrow> Inl e
        | Inr init_signature \<Rightarrow>
            (case eval_slots (slots_text (f_parameters func)) of
               None \<Rightarrow> Inl (SyntaxError ''invalid syntax'')
             | Some slots \<Rightarrow>
                 Inr \<lparr>cls_name = f_name func,
                      cls_qualname = f_qualname func,
                      cls_module = f_module func,
                      cls_doc = f_doc func,
                      cls_slots = slots,
                      cls_init_parameters = init_signature,
                      cls_init_body = init_body (f_parameters func),
                      cls_annotations =
                        build_annotations (dict_del (func_annotations func) ''return'')
                          (f_parameters func) [],
                      cls_match_args = build_match_args (f_parameters func) [],
                      cls_init_annotations =
                        dict_set (func_annotations func) ''return'' NoneObject,
                      cls_init_defaults = func_defaults func,
                      cls_init_kwdefaults = func_kwdefaults func\<rparr>))"


section \<open>Objects and construction\<close>

text \<open>
  An object as the methods of \<open>Record\<close> see it: the name of its type, the value of
  \<open>type(obj).__slots__\<close> (\<open>None\<close> when the type has no such attribute), the signature
  of its bound \<open>__init__\<close>, and its attributes. \<open>hasattr(obj, a)\<close> is
  \<open>ob_attrs obj a \<noteq> None\<close>: a slot that was never assigned is absent.
\<close>

record 'v pyobject =
  ob_type_name :: string
  ob_type_slots :: "slots_value option"
  ob_init_signature :: "'v parameter list"
  ob_attrs :: "string \<Rightarrow> 'v option"

text \<open>
  \<open>inspect.signature\<close> of the generated \<open>__init__\<close> reads the compiled parameters
  together with \<open>__defaults__\<close> (aligned to the last positional parameters),
  \<open>__kwdefaults__\<close> and \<open>__annotations__\<close>, which \<open>record\<close> installs after the class
  is built.
\<close>

fun install_defaults ::
  "nat \<Rightarrow> 'v list \<Rightarrow> (string \<times> 'v) list \<Rightarrow> 'v parameter list \<Rightarrow> 'v parameter list" where
  "install_defaults skip defaults kwdefaults [] = []"
| "install_defaults skip defaults kwdefaults (p # ps) =
     (if is_positional p then
        (if 0 < skip then p # install_defaults (skip - 1) defaults kwdefaults ps
         else
           (case defaults of
              [] \<Rightarrow> p # install_defaults 0 [] kwdefaults ps
            | d # ds \<Rightarrow> p\<lparr>pdefault := Some d\<rparr> # install_defaults 0 ds kwdefaults ps))
      else if pkind p = KEYWORD_ONLY then
        p\<lparr>pdefault := map_of kwdefaults (pname p)\<rparr>
          # install_defaults skip defaults kwdefaults ps
      else p # install_defaults skip defaults kwdefaults ps)"

definition init_signature :: "'v record_type \<Rightarrow> 'v parameter list" where
  "init_signature cls =
     map (\<lambda>p. p\<lparr>pannotation := map_of (cls_init_annotations cls) (pname p)\<rparr>)
       (install_defaults
          (length (filter is_positional (cls_init_parameters cls))
             - length (cls_init_defaults cls))
          (cls_init_defaults cls) (cls_init_kwdefaults cls) (cls_init_parameters cls))"

text \<open>The signature of the bound method: the first parameter (\<open>self\<close>) is dropped.\<close>

definition bound_init_signature :: "'v record_type \<Rightarrow> 'v parameter list" where
  "bound_init_signature cls = tl (init_signature cls)"

text \<open>
  Binding the arguments of a call to parameters, as the interpreter does: positional
  arguments fill the positional parameters in order and the excess goes to the
  variadic-positional parameter as a tuple; keyword arguments go to the parameter of
  that name unless it is positional-only, and the rest to the variadic-keyword
  parameter as a dict; a parameter left without a value takes its default. \<open>mk_tuple\<close>
  and \<open>mk_dict\<close> build the tuple and the dict as values.
\<close>

definition bind_value ::
  "('v list \<Rightarrow> 'v) \<Rightarrow> ((string \<times> 'v) list \<Rightarrow> 'v) \<Rightarrow> (string \<times> 'v) list \<Rightarrow> (string \<times> 'v) list
     \<Rightarrow> 'v list \<Rightarrow> (string \<times> 'v) list \<Rightarrow> 'v parameter \<Rightarrow> py_error + 'v" where
  "bind_value mk_tuple mk_dict by_position kwargs extra_args extra_kwargs p =
     (case pkind p of
        VAR_POSITIONAL \<Rightarrow> Inr (mk_tuple extra_args)
      | VAR_KEYWORD \<Rightarrow> Inr (mk_dict extra_kwargs)
      | _ \<Rightarrow>
          (case map_of by_position (pname p) of
             Some v \<Rightarrow> Inr v
           | None \<Rightarrow>
               (case (if pkind p = POSITIONAL_ONLY then None else map_of kwargs (pname p)) of
                  Some v \<Rightarrow> Inr v
                | None \<Rightarrow>
                    (case pdefault p of
                       Some d \<Rightarrow> Inr d
                     | None \<Rightarrow>
                         Inl (TypeError (''missing required argument: '' @ repr_str (pname p)))))))"

fun bind_params ::
  "('v list \<Rightarrow> 'v) \<Rightarrow> ((string \<times> 'v) list \<Rightarrow> 'v) \<Rightarrow> (string \<times> 'v) list \<Rightarrow> (string \<times> 'v) list
     \<Rightarrow> 'v list \<Rightarrow> (string \<times> 'v) list \<Rightarrow> 'v parameter list \<Rightarrow> py_error + (string \<times> 'v) list" where
  "bind_params mk_tuple mk_dict by_position kwargs extra_args extra_kwargs [] = Inr []"
| "bind_params mk_tuple mk_dict by_position kwargs extra_args extra_kwargs (p # ps) =
     (case bind_value mk_tuple mk_dict by_position kwargs extra_args extra_kwargs p of
        Inl e \<Rightarrow> Inl e
      | Inr v \<Rightarrow>
          (case bind_params mk_tuple mk_dict by_position kwargs extra_args extra_kwargs ps of
             Inl e \<Rightarrow> Inl e
           | Inr env \<Rightarrow> Inr ((pname p, v) # env)))"

definition bind ::
  "('v list \<Rightarrow> 'v) \<Rightarrow> ((string \<times> 'v) list \<Rightarrow> 'v) \<Rightarrow> 'v parameter list \<Rightarrow> 'v list
     \<Rightarrow> (string \<times> 'v) list \<Rightarrow> py_error + (string \<times> 'v) list" where
  "bind mk_tuple mk_dict ps args kwargs =
     (let pos = filter is_positional ps;
          by_position = zip (map pname pos) args;
          kw_names =
            map pname
              (filter (\<lambda>p. pkind p = POSITIONAL_OR_KEYWORD \<or> pkind p = KEYWORD_ONLY) ps);
          extra_kwargs = filter (\<lambda>kv. fst kv \<notin> set kw_names) kwargs
      in if length pos < length args \<and> \<not> list_ex (\<lambda>p. pkind p = VAR_POSITIONAL) ps then
           Inl (TypeError ''too many positional arguments'')
         else if extra_kwargs \<noteq> [] \<and> \<not> list_ex (\<lambda>p. pkind p = VAR_KEYWORD) ps then
           Inl (TypeError ''unexpected keyword argument'')
         else if list_ex (\<lambda>kv. fst kv \<in> set kw_names \<and> fst kv \<in> set (map fst by_position))
                   kwargs then
           Inl (TypeError ''multiple values for argument'')
         else bind_params mk_tuple mk_dict by_position kwargs
                (drop (length pos) args) extra_kwargs ps)"

text \<open>
  \<open>object.__setattr__\<close> on an instance of a class whose bases all declare
  \<open>__slots__\<close>: the attribute must be one of the slots.
\<close>

definition object_setattr ::
  "'v pyobject \<Rightarrow> string \<Rightarrow> 'v \<Rightarrow> py_error + 'v pyobject" where
  "object_setattr self a v =
     (case ob_type_slots self of
        None \<Rightarrow> Inl (AttributeError a)
      | Some slots \<Rightarrow>
          (if a \<in> set (slot_names slots) then Inr (self\<lparr>ob_attrs := (ob_attrs self)(a \<mapsto> v)\<rparr>)
           else Inl (AttributeError a)))"

fun exec_body ::
  "stmt list \<Rightarrow> (string \<times> 'v) list \<Rightarrow> 'v pyobject \<Rightarrow> py_error + 'v pyobject" where
  "exec_body [] env self = Inr self"
| "exec_body (Pass # rest) env self = exec_body rest env self"
| "exec_body (SetAttr a var # rest) env self =
     (case map_of env var of
        None \<Rightarrow> Inl (NameError var)
      | Some v \<Rightarrow>
          (case object_setattr self a v of
             Inl e \<Rightarrow> Inl e
           | Inr self' \<Rightarrow> exec_body rest env self'))"

definition new_object :: "'v record_type \<Rightarrow> 'v pyobject" where
  "new_object cls =
     \<lparr>ob_type_name = cls_name cls,
      ob_type_slots = Some (cls_slots cls),
      ob_init_signature = bound_init_signature cls,
      ob_attrs = (\<lambda>a. None)\<rparr>"

text \<open>Calling the class: a fresh object, then \<open>__init__\<close> on the bound arguments.\<close>

definition construct ::
  "('v list \<Rightarrow> 'v) \<Rightarrow> ((string \<times> 'v) list \<Rightarrow> 'v) \<Rightarrow> 'v record_type \<Rightarrow> 'v list
     \<Rightarrow> (string \<times> 'v) list \<Rightarrow> py_error + 'v pyobject" where
  "construct mk_tuple mk_dict cls args kwargs =
     (case bind mk_tuple mk_dict (bound_init_signature cls) args kwargs of
        Inl e \<Rightarrow> Inl e
      | Inr env \<Rightarrow> exec_body (cls_init_body cls) env (new_object cls))"

section \<open>The methods of \<open>Record\<close>\<close>

subsection \<open>\<open>__eq__\<close>\<close>

text \<open>
  The elements of the two frozensets: attribute names, or the fresh \<open>object()\<close> of the
  default \<open>[object()]\<close>, which is equal to nothing else.
\<close>

datatype slot_elem = SName string | SentinelObject

definition attrs_of_type :: "'v pyobject \<Rightarrow> slot_elem set" where
  "attrs_of_type obj =
     (case ob_type_slots obj of
        None \<Rightarrow> {SentinelObject}
      | Some slots \<Rightarrow> SName ` set (iter_slots slots))"

datatype eq_result = NotImplemented | Bool bool

text \<open>
  The \<open>for\<close> loop over \<open>self_attrs\<close>. \<open>ne x y\<close> is the truth value of \<open>x != y\<close> on field
  values. A frozenset is iterated in an order of the interpreter's choosing (for
  strings it changes with the hash seed), so the loop takes the order as a list.
\<close>

fun eq_loop ::
  "('v \<Rightarrow> 'v \<Rightarrow> bool) \<Rightarrow> 'v pyobject \<Rightarrow> 'v pyobject \<Rightarrow> string list \<Rightarrow> py_error + eq_result" where
  "eq_loop ne self other [] = Inr (Bool True)"
| "eq_loop ne self other (a # rest) =
     (case ob_attrs other a of
        None \<Rightarrow> Inr NotImplemented
      | Some y \<Rightarrow>
          (case ob_attrs self a of
             None \<Rightarrow> Inl (AttributeError a)
           | Some x \<Rightarrow> if ne x y then Inr (Bool False) else eq_loop ne self other rest))"

definition Record_eq ::
  "('v \<Rightarrow> 'v \<Rightarrow> bool) \<Rightarrow> string list \<Rightarrow> 'v pyobject \<Rightarrow> 'v pyobject \<Rightarrow> py_error + eq_result" where
  "Record_eq ne order self other =
     (case ob_type_slots self of
        None \<Rightarrow> Inl (AttributeError ''__slots__'')
      | Some slots \<Rightarrow>
          (if SName ` set (iter_slots slots) \<noteq> attrs_of_type other then Inr NotImplemented
           else eq_loop ne self other order))"

text \<open>The orders in which the frozenset of the names \<open>slots\<close> can be iterated.\<close>

definition iteration_order :: "string list \<Rightarrow> string list \<Rightarrow> bool" where
  "iteration_order slots order = (distinct order \<and> set order = set slots)"

subsection \<open>\<open>__hash__\<close>\<close>

fun getattrs :: "'v pyobject \<Rightarrow> string list \<Rightarrow> py_error + 'v list" where
  "getattrs self [] = Inr []"
| "getattrs self (a # rest) =
     (case ob_attrs self a of
        None \<Rightarrow> Inl (AttributeError a)
      | Some v \<Rightarrow> (case getattrs self rest of Inl e \<Rightarrow> Inl e | Inr vs \<Rightarrow> Inr (v # vs)))"

text \<open>
  \<open>hash\<close> of a tuple: the hashes of the items, taken in order (the first item that
  cannot be hashed raises), combined by \<open>combine\<close>.
\<close>

fun hash_items :: "('v \<Rightarrow> py_error + 'h) \<Rightarrow> 'v list \<Rightarrow> py_error + 'h list" where
  "hash_items vhash [] = Inr []"
| "hash_items vhash (v # rest) =
     (case vhash v of
        Inl e \<Rightarrow> Inl e
      | Inr h \<Rightarrow> (case hash_items vhash rest of Inl e \<Rightarrow> Inl e | Inr hs \<Rightarrow> Inr (h # hs)))"

definition hash_tuple :: "('v \<Rightarrow> py_error + 'h) \<Rightarrow> ('h list \<Rightarrow> 'h) \<Rightarrow> 'v list \<Rightarrow> py_error + 'h" where
  "hash_tuple vhash combine vs =
     (case hash_items vhash vs of Inl e \<Rightarrow> Inl e | Inr hs \<Rightarrow> Inr (combine hs))"

definition Record_hash ::
  "('v \<Rightarrow> py_error + 'h) \<Rightarrow> ('h list \<Rightarrow> 'h) \<Rightarrow> 'v pyobject \<Rightarrow> py_error + 'h" where
  "Record_hash vhash combine self =
     (case ob_type_slots self of
        None \<Rightarrow> Inl (AttributeError ''__slots__'')
      | Some slots \<Rightarrow>
          (case getattrs self (iter_slots slots) of
             Inl e \<Rightarrow> Inl e
           | Inr vs \<Rightarrow> hash_tuple vhash combine vs))"

subsection \<open>\<open>__setattr__\<close> and \<open>__delattr__\<close>\<close>

text \<open>
  Both methods only raise. They return the outcome together with the object as it is
  after the call.
\<close>

definition Record_setattr ::
  "'v pyobject \<Rightarrow> string \<Rightarrow> 'v \<Rightarrow> (py_error + unit) \<times> 'v pyobject" where
  "Record_setattr self a v =
     (Inl (TypeError (ob_type_name self @ '' object does not support attribute assignment'')),
      self)"

definition Record_delattr ::
  "'v pyobject \<Rightarrow> string \<Rightarrow> (py_error + unit) \<times> 'v pyobject" where
  "Record_delattr self a =
     (Inl (TypeError (ob_type_name self @ '' object does not support attribute deletion'')),
      self)"

subsection \<open>\<open>__repr__\<close>\<close>

text \<open>\<open>vrepr\<close> is \<open>repr\<close> on field values.\<close>

fun repr_loop ::
  "('v \<Rightarrow> string) \<Rightarrow> 'v pyobject \<Rightarrow> 'v parameter list \<Rightarrow> string list \<Rightarrow> py_error + string list" where
  "repr_loop vrepr self [] args = Inr args"
| "repr_loop vrepr self (parameter # rest) args =
     (case ob_attrs self (pname parameter) of
        None \<Rightarrow> Inl (AttributeError (pname parameter))
      | Some v \<Rightarrow>
          (let param_repr = vrepr v in
           repr_loop vrepr self rest
             (args @
               [case pkind parameter of
                  POSITIONAL_ONLY \<Rightarrow> param_repr
                | POSITIONAL_OR_KEYWORD \<Rightarrow> pname parameter @ ''='' @ param_repr
                | KEYWORD_ONLY \<Rightarrow> pname parameter @ ''='' @ param_repr
                | VAR_POSITIONAL \<Rightarrow> ''*'' @ param_repr
                | VAR_KEYWORD \<Rightarrow> ''**'' @ param_repr])))"

definition Record_repr :: "('v \<Rightarrow> string) \<Rightarrow> 'v pyobject \<Rightarrow> py_error + string" where
  "Record_repr vrepr self =
     (case repr_loop vrepr self (ob_init_signature self) [] of
        Inl e \<Rightarrow> Inl e
      | Inr args \<Rightarrow> Inr (ob_type_name self @ ''('' @ join '', '' args @ '')''))"


section \<open>Built-in values\<close>

text \<open>
  The methods above take the behaviour of field values (\<open>!=\<close>, \<open>hash\<close>, \<open>repr\<close>) as
  parameters. For concrete instances this section gives a fragment of the built-in
  values with those operations as the interpreter defines them: integers, floats that
  hold an integral value of magnitude below \<open>10^16\<close> (\<open>VFloat 1\<close> is \<open>1.0\<close>),
  strings without quotes or escapes, tuples, and dicts with string keys in insertion
  order.
\<close>

datatype pyval =
    VInt int
  | VFloat int
  | VStr string
  | VTuple "pyval list"
  | VDict "(string \<times> pyval) list"

fun py_eq :: "pyval \<Rightarrow> pyval \<Rightarrow> bool" where
  "py_eq (VInt a) (VInt b) = (a = b)"
| "py_eq (VInt a) (VFloat b) = (a = b)"
| "py_eq (VFloat a) (VInt b) = (a = b)"
| "py_eq (VFloat a) (VFloat b) = (a = b)"
| "py_eq (VStr s) (VStr t) = (s = t)"
| "py_eq (VTuple xs) (VTuple ys) = list_all2 py_eq xs ys"
| "py_eq (VDict d) (VDict e) =
     (length d = length e \<and>
      list_all (\<lambda>kv. case map_of e (fst kv) of None \<Rightarrow> False | Some w \<Rightarrow> py_eq (snd kv) w) d)"
| "py_eq _ _ = False"

definition py_ne :: "pyval \<Rightarrow> pyval \<Rightarrow> bool" where
  "py_ne x y = (\<not> py_eq x y)"

definition digit :: "nat \<Rightarrow> char" where
  "digit d = ''0123456789'' ! d"

fun show_nat :: "nat \<Rightarrow> string" where
  "show_nat n = (if n < 10 then [digit n] else show_nat (n div 10) @ [digit (n mod 10)])"

declare show_nat.simps [simp del]

definition show_int :: "int \<Rightarrow> string" where
  "show_int i = (if i < 0 then CHR ''-'' # show_nat (nat (- i)) else show_nat (nat i))"

fun py_repr :: "pyval \<Rightarrow> string" where
  "py_repr (VInt i) = show_int i"
| "py_repr (VFloat i) = show_int i @ ''.0''"
| "py_repr (VStr s) = repr_str s"
| "py_repr (VTuple [x]) = ''('' @ py_repr x @ '',)''"
| "py_repr (VTuple xs) = ''('' @ join '', '' (map py_repr xs) @ '')''"
| "py_repr (VDict d) =
     ''{'' @ join '', '' (map (\<lambda>kv. repr_str (fst kv) @ '': '' @ py_repr (snd kv)) d) @ ''}''"

text \<open>
  Hashes on a 64-bit build: an integer hashes to itself reduced modulo \<open>2^61 - 1\<close>
  (and never to \<open>-1\<close>), a float with an integral value hashes as that integer, a
  tuple combines the hashes of its items in order, a dict cannot be hashed. The hash
  of a string depends on the seed of the process and is the parameter \<open>str_hash\<close>.
\<close>

unbundle bit_operations_syntax

definition hash_int :: "int \<Rightarrow> 64 word" where
  "hash_int n =
     (let m = \<bar>n\<bar> mod (2 ^ 61 - 1);
          h = (if n < 0 then - m else m)
      in word_of_int (if h = - 1 then - 2 else h))"

definition xxrotate :: "64 word \<Rightarrow> 64 word" where
  "xxrotate x = (push_bit 31 x OR drop_bit 33 x)"

definition tuplehash_step :: "64 word \<Rightarrow> 64 word \<Rightarrow> 64 word" where
  "tuplehash_step acc lane =
     xxrotate (acc + lane * 14029467366897019727) * 11400714785074694791"

definition tuplehash :: "64 word list \<Rightarrow> 64 word" where
  "tuplehash lanes =
     (let acc = foldl tuplehash_step 2870177450012600261 lanes
                + (word_of_nat (length lanes) XOR (2870177450012600261 XOR 3527539))
      in if acc = - 1 then 1546275796 else acc)"

fun py_hash :: "(string \<Rightarrow> 64 word) \<Rightarrow> pyval \<Rightarrow> py_error + 64 word"
  and py_hash_items :: "(string \<Rightarrow> 64 word) \<Rightarrow> pyval list \<Rightarrow> py_error + 64 word list" where
  "py_hash str_hash (VInt i) = Inr (hash_int i)"
| "py_hash str_hash (VFloat i) = Inr (hash_int i)"
| "py_hash str_hash (VStr s) = Inr (str_hash s)"
| "py_hash str_hash (VTuple xs) =
     (case py_hash_items str_hash xs of Inl e \<Rightarrow> Inl e | Inr hs \<Rightarrow> Inr (tuplehash hs))"
| "py_hash str_hash (VDict d) =
     Inl (TypeError (''unhashable type: '' @ repr_str ''dict''))"
| "py_hash_items str_hash [] = Inr []"
| "py_hash_items str_hash (x # xs) =
     (case py_hash str_hash x of
        Inl e \<Rightarrow> Inl e
      | Inr h \<Rightarrow>
          (case py_hash_items str_hash xs of Inl e \<Rightarrow> Inl e | Inr hs \<Rightarrow> Inr (h # hs)))"

section \<open>Example declarations\<close>

text \<open>The declarations of the test suite, and a few more used below.\<close>

definition AllParameterTypes :: "pyval func" where
  "AllParameterTypes =
     \<lparr>f_name = ''AllParameterTypes'', f_qualname = ''AllParameterTypes'',
      f_module = ''test_records'',
      f_doc = Some ''An example with all the types of possible parameters.'',
      f_parameters =
        [\<lparr>pname = ''pos'', pkind = POSITIONAL_ONLY, pdefault = None,
          pannotation = Some (Name ''float'')\<rparr>,
         \<lparr>pname = ''pos_kw'', pkind = POSITIONAL_OR_KEYWORD, pdefault = None,
          pannotation = Some (Name ''int'')\<rparr>,
         \<lparr>pname = ''args'', pkind = VAR_POSITIONAL, pdefault = None,
          pannotation = Some (Name ''int'')\<rparr>,
         \<lparr>pname = ''kw'', pkind = KEYWORD_ONLY, pdefault = None,
          pannotation = Some (Name ''str'')\<rparr>,
         \<lparr>pname = ''kwargs'', pkind = VAR_KEYWORD, pdefault = None,
          pannotation = Some (Name ''int'')\<rparr>],
      f_return_annotation = None\<rparr>"

definition NoParameters :: "pyval func" where
  "NoParameters =
     \<lparr>f_name = ''NoParameters'', f_qualname = ''test_no_slots.<locals>.NoParameters'',
      f_module = ''test_records'', f_doc = Some ''An example with no parameters.'',
      f_parameters = [], f_return_annotation = None\<rparr>"

definition SingleParameter :: "pyval func" where
  "SingleParameter =
     \<lparr>f_name = ''SingleParameter'',
      f_qualname = ''test_single_slots.<locals>.SingleParameter'',
      f_module = ''test_records'', f_doc = Some ''An example with a single parameter.'',
      f_parameters =
        [\<lparr>pname = ''only_one'', pkind = POSITIONAL_OR_KEYWORD, pdefault = None,
          pannotation = Some (Name ''float'')\<rparr>],
      f_return_annotation = None\<rparr>"

text \<open>\<open>def point(names) -> None\<close>: unannotated positional-or-keyword parameters.\<close>

definition point :: "string \<Rightarrow> string list \<Rightarrow> pyval func" where
  "point name names =
     \<lparr>f_name = name, f_qualname = name, f_module = ''test_records'', f_doc = None,
      f_parameters =
        map (\<lambda>n. \<lparr>pname = n, pkind = POSITIONAL_OR_KEYWORD, pdefault = None,
                  pannotation = None\<rparr>) names,
      f_return_annotation = Some NoneObject\<rparr>"

text \<open>
  \<open>def Annotated(x: int, *args: "int", **kwargs: Unpack[Movie]) -> None\<close>
\<close>

definition Annotated :: "pyval func" where
  "Annotated =
     \<lparr>f_name = ''Annotated'', f_qualname = ''Annotated'', f_module = ''test_records'',
      f_doc = None,
      f_parameters =
        [\<lparr>pname = ''x'', pkind = POSITIONAL_OR_KEYWORD, pdefault = None,
          pannotation = Some (Name ''int'')\<rparr>,
         \<lparr>pname = ''args'', pkind = VAR_POSITIONAL, pdefault = None,
          pannotation = Some (Text ''int'')\<rparr>,
         \<lparr>pname = ''kwargs'', pkind = VAR_KEYWORD, pdefault = None,
          pannotation = Some (Unpack_of (Name ''Movie''))\<rparr>],
      f_return_annotation = Some NoneObject\<rparr>"

text \<open>
  \<open>def TextAnnotations(x: "int", *args: "int", **kwargs: "int")\<close> and
  \<open>def TextUnpack(**kwargs: "Unpack[TypedDict]")\<close>, from the test suite.
\<close>

definition TextAnnotations :: "pyval func" where
  "TextAnnotations =
     \<lparr>f_name = ''Example'', f_qualname = ''test_text_annotations.<locals>.Example'',
      f_module = ''test_records'', f_doc = Some ''An example.'',
      f_parameters =
        [\<lparr>pname = ''x'', pkind = POSITIONAL_OR_KEYWORD, pdefault = None,
          pannotation = Some (Text ''int'')\<rparr>,
         \<lparr>pname = ''args'', pkind = VAR_POSITIONAL, pdefault = None,
          pannotation = Some (Text ''int'')\<rparr>,
         \<lparr>pname = ''kwargs'', pkind = VAR_KEYWORD, pdefault = None,
          pannotation = Some (Text ''int'')\<rparr>],
      f_return_annotation = None\<rparr>"

definition TextUnpack :: "pyval func" where
  "TextUnpack =
     \<lparr>f_name = ''Example'',
      f_qualname = ''test_unpack_kwags_text_annotations.<locals>.Example'',
      f_module = ''test_records'', f_doc = None,
      f_parameters =
        [\<lparr>pname = ''kwargs'', pkind = VAR_KEYWORD, pdefault = None,
          pannotation = Some (Text ''Unpack[TypedDict]'')\<rparr>],
      f_return_annotation = None\<rparr>"

text \<open>Decorating a declaration and calling the generated type, on built-in values.\<close>

definition declare_and_call ::
  "pyval func \<Rightarrow> pyval list \<Rightarrow> (string \<times> pyval) list \<Rightarrow> py_error + pyval pyobject" where
  "declare_and_call func args kwargs =
     (case record_fn func of
        Inl e \<Rightarrow> Inl e
      | Inr cls \<Rightarrow> construct VTuple VDict cls args kwargs)"

text \<open>
  The instance that \<open>point name names\<close>, called with as many positional arguments
  as it has parameters, returns (see \<open>point_instance_constructed\<close> below).
\<close>

definition point_instance :: "string \<Rightarrow> string list \<Rightarrow> pyval list \<Rightarrow> pyval pyobject" where
  "point_instance name names vs =
     \<lparr>ob_type_name = name,
      ob_type_slots = Some (SlotTuple names),
      ob_init_signature =
        map (\<lambda>n. \<lparr>pname = n, pkind = POSITIONAL_OR_KEYWORD, pdefault = None,
                  pannotation = None\<rparr>) names,
      ob_attrs = map_of (zip names vs)\<rparr>"


section \<open>Well-formed names\<close>

text \<open>
  A name is plain when it holds no quote, backslash or line break, as every identifier
  is: then \<open>repr_str\<close> is its \<open>repr\<close> and the literal reads back as the name.
\<close>

definition plain_name :: "string \<Rightarrow> bool" where
  "plain_name s = (sq \<notin> set s \<and> CHR 0x5C \<notin> set s \<and> CHR 0x0A \<notin> set s)"

text \<open>The tokens of a display of names separated by commas.\<close>

fun name_tokens :: "string list \<Rightarrow> token list" where
  "name_tokens [] = []"
| "name_tokens [n] = [TStr n]"
| "name_tokens (n # m # ns) = TStr n # TComma # name_tokens (m # ns)"

section \<open>The text of the class reads back as the parameter names\<close>

lemma build_match_args_takeWhile:
  "build_match_args ps acc =
     acc @ map pname (takeWhile (\<lambda>p. pkind p \<in> {POSITIONAL_ONLY, POSITIONAL_OR_KEYWORD}) ps)"
proof (induction ps arbitrary: acc)
  case Nil
  show ?case by simp
next
  case (Cons p ps)
  show ?case by (cases "pkind p") (simp_all add: Cons.IH)
qed

lemma lex_literal:
  "plain_name n \<Longrightarrow>
     tokenize (Some lit) (n @ sq # rest) = map_option (Cons (TStr (lit @ n))) (tokenize None rest)"
  by (induction n arbitrary: lit) (auto simp: plain_name_def)

lemma lex_repr_str:
  "plain_name n \<Longrightarrow> tokenize None (repr_str n @ rest) = map_option (Cons (TStr n)) (tokenize None rest)"
  using lex_literal [of n "[]" rest] by (simp add: repr_str_def)

lemma lex_join:
  "\<forall>n\<in>set ns. plain_name n \<Longrightarrow>
     tokenize None (join '', '' (map repr_str ns)) = Some (name_tokens ns)"
proof (induction ns rule: name_tokens.induct)
  case 1
  show ?case by simp
next
  case (2 n)
  then show ?case using lex_repr_str [of n "[]"] by simp
next
  case (3 n m ns)
  then show ?case using lex_repr_str [of n "'', '' @ join '', '' (map repr_str (m # ns))"] by simp
qed

lemma tuple_items_name_tokens: "tuple_items (name_tokens ns) = Some ns"
  by (induction ns rule: name_tokens.induct) simp_all

lemma eval_display_name_tokens:
  "length ns \<noteq> 1 \<Longrightarrow> eval_display (name_tokens ns) = Some (SlotTuple ns)"
proof (cases ns)
  case Nil
  then show ?thesis by simp
next
  case (Cons n ms)
  assume "length ns \<noteq> 1"
  with Cons obtain m ms' where "ms = m # ms'" by (cases ms) auto
  with Cons show ?thesis by (simp add: tuple_items_name_tokens)
qed

lemma eval_slots_text:
  assumes "\<forall>p\<in>set ps. plain_name (pname p)"
  shows "eval_slots (slots_text ps) = Some (SlotTuple (map pname ps))"
proof (cases "length ps = 1")
  case True
  then obtain p where ps: "ps = [p]" by (cases ps) auto
  with assms have "plain_name (pname p)" by simp
  then have "tokenize None (repr_str (pname p) @ '','') = Some [TStr (pname p), TComma]"
    using lex_repr_str [of "pname p" "'',''"] by simp
  with ps show ?thesis by (simp add: eval_slots_def slots_text_def)
next
  case False
  from assms have "\<forall>n\<in>set (map pname ps). plain_name n" by simp
  then have "tokenize None (join '', '' (map repr_str (map pname ps))) = Some (name_tokens (map pname ps))"
    by (rule lex_join)
  with False show ?thesis
    by (simp add: eval_slots_def slots_text_def eval_display_name_tokens comp_def)
qed

section \<open>What \<open>record\<close> returns\<close>

lemma record_fn_InrD:
  assumes "record_fn func = Inr cls"
  shows "f_return_annotation func \<in> {None, Some NoneObject}"
    and "Signature_validate (self_parameter # map strip_parameter (f_parameters func))
           POSITIONAL_ONLY False [] = Inr ()"
    and "eval_slots (slots_text (f_parameters func)) = Some (cls_slots cls)"
    and "cls_name cls = f_name func"
    and "cls_init_parameters cls = self_parameter # map strip_parameter (f_parameters func)"
    and "cls_init_body cls = init_body (f_parameters func)"
    and "cls_annotations cls =
           build_annotations (dict_del (func_annotations func) ''return'') (f_parameters func) []"
    and "cls_match_args cls = build_match_args (f_parameters func) []"
    and "cls_init_annotations cls = dict_set (func_annotations func) ''return'' NoneObject"
    and "cls_init_defaults cls = func_defaults func"
    and "cls_init_kwdefaults cls = func_kwdefaults func"
  using assms
  by (auto simp: record_fn_def Signature_replace_def split: if_splits sum.splits option.splits)

lemmas example_simps =
  record_fn_def Signature_replace_def self_parameter_def strip_parameter_def
  is_positional_def eval_slots_def slots_text_def repr_str_def init_body_def
  func_annotations_def func_defaults_def func_kwdefaults_def dict_del_def
  List.map_filter_def adjust_annotation_def make_var_positional_annotation_def
  make_var_keyword_annotation_def startswith_def removeprefix_def removesuffix_def
  endswith_def

lemma record_fn_AllParameterTypes: "\<exists>cls. record_fn AllParameterTypes = Inr cls"
  by (simp add: AllParameterTypes_def example_simps)

section \<open>The match pattern\<close>

text \<open>
  C6. The match pattern of the generated type is the leading run of parameter names
  whose kind is positional-only or positional-or-keyword: the loop stops at the first
  variadic-positional, keyword-only or variadic-keyword parameter, whatever follows it.
\<close>

theorem match_args_leading_run:
  assumes "record_fn func = Inr cls"
  shows "cls_match_args cls =
           map pname (takeWhile (\<lambda>p. pkind p \<in> {POSITIONAL_ONLY, POSITIONAL_OR_KEYWORD})
             (f_parameters func))
         \<and> cls_match_args cls =
           map pname (takeWhile (\<lambda>p. pkind p \<notin> {VAR_POSITIONAL, KEYWORD_ONLY, VAR_KEYWORD})
             (f_parameters func))"
proof -
  let ?ps = "f_parameters func"
  have m: "cls_match_args cls =
             map pname (takeWhile (\<lambda>p. pkind p \<in> {POSITIONAL_ONLY, POSITIONAL_OR_KEYWORD}) ?ps)"
    using record_fn_InrD(8) [OF assms]
    by (simp only: build_match_args_takeWhile append_Nil)
  have same: "takeWhile (\<lambda>p. pkind p \<notin> {VAR_POSITIONAL, KEYWORD_ONLY, VAR_KEYWORD}) ?ps
                = takeWhile (\<lambda>p. pkind p \<in> {POSITIONAL_ONLY, POSITIONAL_OR_KEYWORD}) ?ps"
  proof (rule takeWhile_cong)
    fix p :: "'a parameter"
    show "(pkind p \<notin> {VAR_POSITIONAL, KEYWORD_ONLY, VAR_KEYWORD})
            = (pkind p \<in> {POSITIONAL_ONLY, POSITIONAL_OR_KEYWORD})"
      by (cases "pkind p") simp_all
  qed (rule refl)
  show ?thesis
    by (simp only: m same)
qed

theorem match_args_leading_run_witness:
  "\<exists>cls. record_fn AllParameterTypes = Inr cls
         \<and> cls_match_args cls = [''pos'', ''pos_kw'']"
proof -
  obtain cls where c: "record_fn AllParameterTypes = Inr cls"
    using record_fn_AllParameterTypes by blast
  from match_args_leading_run [OF c]
  have "cls_match_args cls = [''pos'', ''pos_kw'']"
    by (simp add: AllParameterTypes_def)
  with c show ?thesis by blast
qed

section \<open>The field names of the generated type\<close>

lemma install_defaults_names:
  "map pname (install_defaults k ds kw ps) = map pname ps"
  by (induction k ds kw ps rule: install_defaults.induct) (auto split: list.splits)

lemma install_defaults_kinds:
  "map pkind (install_defaults k ds kw ps) = map pkind ps"
  by (induction k ds kw ps rule: install_defaults.induct) (auto split: list.splits)

lemma bound_init_signature_names:
  assumes "record_fn func = Inr cls"
  shows "map pname (bound_init_signature cls) = map pname (f_parameters func)"
proof -
  have "map pname (init_signature cls) = map pname (cls_init_parameters cls)"
    by (simp add: init_signature_def comp_def install_defaults_names)
  then show ?thesis
    using record_fn_InrD(5) [OF assms]
    by (simp add: bound_init_signature_def map_tl strip_parameter_def comp_def)
qed

lemma bound_init_signature_kinds:
  assumes "record_fn func = Inr cls"
  shows "map pkind (bound_init_signature cls) = map pkind (f_parameters func)"
proof -
  have "map pkind (init_signature cls) = map pkind (cls_init_parameters cls)"
    by (simp add: init_signature_def comp_def install_defaults_kinds)
  then show ?thesis
    using record_fn_InrD(5) [OF assms]
    by (simp add: bound_init_signature_def map_tl strip_parameter_def comp_def)
qed

lemma bound_init_signature_no_parameters:
  assumes "record_fn func = Inr cls" and "f_parameters func = []"
  shows "bound_init_signature cls = []"
  using bound_init_signature_names [OF assms(1)] assms(2) by simp

lemma construct_no_parameters:
  assumes "record_fn func = Inr cls" and "f_parameters func = []"
  shows "construct mk_tuple mk_dict cls [] [] = Inr (new_object cls)"
  using record_fn_InrD(6) [OF assms(1)] assms(2)
    bound_init_signature_no_parameters [OF assms]
  by (simp add: construct_def bind_def init_body_def)

lemma record_fn_no_parameters:
  assumes "f_parameters func = []" and "f_return_annotation func \<in> {None, Some NoneObject}"
  shows "\<exists>cls. record_fn func = Inr cls"
  using assms
  by (auto simp add: record_fn_def Signature_replace_def self_parameter_def is_positional_def
      eval_slots_def slots_text_def)

text \<open>
  C2. For every declaration that \<open>record\<close> accepts (with names that are plain, as
  identifiers are), \<open>__slots__\<close> of the generated type is the tuple of the parameter
  names in declared order. With no parameter, \<open>record\<close> succeeds when the return
  annotation allows it, the field list is empty and calling the type without arguments
  succeeds. With one parameter the field list has exactly one entry.
\<close>

theorem slots_are_parameter_names:
  "(record_fn func = Inr cls \<and> (\<forall>p\<in>set (f_parameters func). plain_name (pname p)) \<longrightarrow>
      cls_slots cls = SlotTuple (map pname (f_parameters func))
      \<and> iter_slots (cls_slots cls) = map pname (f_parameters func))
   \<and> (f_parameters func = [] \<and> f_return_annotation func \<in> {None, Some NoneObject} \<longrightarrow>
        (\<exists>cls0 obj. record_fn func = Inr cls0 \<and> iter_slots (cls_slots cls0) = []
           \<and> construct mk_tuple mk_dict cls0 [] [] = Inr obj))
   \<and> (record_fn func = Inr cls \<and> (\<forall>p\<in>set (f_parameters func). plain_name (pname p))
        \<and> length (f_parameters func) = 1 \<longrightarrow>
        length (iter_slots (cls_slots cls)) = 1)"
proof -
  have general: "cls_slots c = SlotTuple (map pname (f_parameters func))"
    if "record_fn func = Inr c" and "\<forall>p\<in>set (f_parameters func). plain_name (pname p)" for c
    using record_fn_InrD(3) [OF that(1)] eval_slots_text [OF that(2)] by simp
  have zero: "\<exists>cls0 obj. record_fn func = Inr cls0 \<and> iter_slots (cls_slots cls0) = []
                \<and> construct mk_tuple mk_dict cls0 [] [] = Inr obj"
    if none: "f_parameters func = []"
      and ret: "f_return_annotation func \<in> {None, Some NoneObject}"
  proof -
    obtain c where c: "record_fn func = Inr c"
      using record_fn_no_parameters [OF none ret] by blast
    have "cls_slots c = SlotTuple []"
      using general [OF c] none by simp
    moreover have "construct mk_tuple mk_dict c [] [] = Inr (new_object c)"
      using c none by (rule construct_no_parameters)
    ultimately show ?thesis using c by auto
  qed
  show ?thesis
    using general zero by auto
qed

lemma record_fn_SingleParameter: "\<exists>cls. record_fn SingleParameter = Inr cls"
  by (simp add: SingleParameter_def example_simps)

theorem slots_are_parameter_names_witness:
  "(\<exists>cls. record_fn AllParameterTypes = Inr cls
      \<and> iter_slots (cls_slots cls) = [''pos'', ''pos_kw'', ''args'', ''kw'', ''kwargs''])
   \<and> (\<exists>cls obj. record_fn NoParameters = Inr cls \<and> iter_slots (cls_slots cls) = []
         \<and> construct VTuple VDict cls [] [] = Inr obj)
   \<and> (\<exists>cls. record_fn SingleParameter = Inr cls
         \<and> iter_slots (cls_slots cls) = [''only_one''])"
proof -
  obtain c1 where c1: "record_fn AllParameterTypes = Inr c1"
    using record_fn_AllParameterTypes by blast
  have p1: "\<forall>p\<in>set (f_parameters AllParameterTypes). plain_name (pname p)"
    by (simp add: AllParameterTypes_def plain_name_def)
  have "iter_slots (cls_slots c1) = [''pos'', ''pos_kw'', ''args'', ''kw'', ''kwargs'']"
    using slots_are_parameter_names [of AllParameterTypes c1] c1 p1
    by (simp add: AllParameterTypes_def)
  with c1 have first: "\<exists>cls. record_fn AllParameterTypes = Inr cls
      \<and> iter_slots (cls_slots cls) = [''pos'', ''pos_kw'', ''args'', ''kw'', ''kwargs'']"
    by blast
  have second: "\<exists>cls obj. record_fn NoParameters = Inr cls \<and> iter_slots (cls_slots cls) = []
         \<and> construct VTuple VDict cls [] [] = Inr obj"
    using slots_are_parameter_names [of NoParameters _ VTuple VDict]
    by (simp add: NoParameters_def)
  obtain c3 where c3: "record_fn SingleParameter = Inr c3"
    using record_fn_SingleParameter by blast
  have p3: "\<forall>p\<in>set (f_parameters SingleParameter). plain_name (pname p)"
    by (simp add: SingleParameter_def plain_name_def)
  have "iter_slots (cls_slots c3) = [''only_one'']"
    using slots_are_parameter_names [of SingleParameter c3] c3 p3
    by (simp add: SingleParameter_def)
  with c3 have third: "\<exists>cls. record_fn SingleParameter = Inr cls
         \<and> iter_slots (cls_slots cls) = [''only_one'']"
    by blast
  from first second third show ?thesis by blast
qed

section \<open>The annotation mappings\<close>

lemma Signature_validate_distinct:
  "Signature_validate ps tk seen names = Inr () \<Longrightarrow> distinct names
     \<Longrightarrow> distinct (names @ map pname ps)"
proof (induction ps arbitrary: tk seen names)
  case Nil
  then show ?case by simp
next
  case (Cons p ps)
  from Cons.prems(1) have fresh: "pname p \<notin> set names"
    by (auto split: if_splits)
  from Cons.prems(1) obtain tk' seen' where
    "Signature_validate ps tk' seen' (names @ [pname p]) = Inr ()"
    by (auto split: if_splits)
  moreover from fresh Cons.prems(2) have "distinct (names @ [pname p])" by simp
  ultimately have "distinct ((names @ [pname p]) @ map pname ps)"
    by (rule Cons.IH)
  then show ?case by simp
qed

lemma record_fn_distinct_names:
  assumes "record_fn func = Inr cls"
  shows "distinct (map pname (f_parameters func))"
    and "''self'' \<notin> set (map pname (f_parameters func))"
proof -
  have "distinct ([] @ map pname (self_parameter # map strip_parameter (f_parameters func)))"
    using record_fn_InrD(2) [OF assms] by (rule Signature_validate_distinct) simp
  then have d: "distinct (''self'' # map pname (f_parameters func))"
    by (simp add: self_parameter_def strip_parameter_def comp_def)
  from d show "distinct (map pname (f_parameters func))" by simp
  from d show "''self'' \<notin> set (map pname (f_parameters func))" by simp
qed

lemma dict_set_fresh: "k \<notin> fst ` set kvs \<Longrightarrow> dict_set kvs k v = kvs @ [(k, v)]"
  by (induction kvs) auto

lemma build_annotations_closed:
  "distinct (map fst acc @ map pname ps) \<Longrightarrow>
     build_annotations proposed ps acc =
       acc @ List.map_filter
               (\<lambda>p. map_option (\<lambda>a. (pname p, adjust_annotation (pkind p) a))
                      (map_of proposed (pname p))) ps"
proof (induction ps arbitrary: acc)
  case Nil
  show ?case by simp
next
  case (Cons p ps)
  show ?case
  proof (cases "map_of proposed (pname p)")
    case None
    moreover from Cons.prems have "distinct (map fst acc @ map pname ps)" by simp
    ultimately show ?thesis
      by (simp add: Cons.IH)
  next
    case (Some a)
    let ?acc = "dict_set acc (pname p) (adjust_annotation (pkind p) a)"
    from Cons.prems have fresh: "pname p \<notin> fst ` set acc" by auto
    then have acc': "?acc = acc @ [(pname p, adjust_annotation (pkind p) a)]"
      by (rule dict_set_fresh)
    with Cons.prems have "distinct (map fst ?acc @ map pname ps)" by auto
    then have "build_annotations proposed ps ?acc =
                 ?acc @ List.map_filter
                   (\<lambda>p. map_option (\<lambda>a. (pname p, adjust_annotation (pkind p) a))
                          (map_of proposed (pname p))) ps"
      by (rule Cons.IH)
    with Some acc' show ?thesis
      by simp
  qed
qed

lemma map_of_annotated:
  "distinct (map pname ps) \<Longrightarrow> p \<in> set ps \<Longrightarrow>
     map_of (List.map_filter (\<lambda>q. map_option (\<lambda>a. (pname q, g q a)) (pannotation q)) ps)
       (pname p) = map_option (g p) (pannotation p)"
proof (induction ps)
  case Nil
  then show ?case by simp
next
  case (Cons q ps)
  show ?case
  proof (cases "p = q")
    case True
    have "map_of (List.map_filter (\<lambda>q. map_option (\<lambda>a. (pname q, g q a)) (pannotation q)) ps)
            (pname q) = None"
      using Cons.prems(1)
      by (auto simp: map_of_eq_None_iff List.map_filter_def image_iff)
    with True show ?thesis
      by (cases "pannotation q") simp_all
  next
    case False
    with Cons.prems have "p \<in> set ps" and "pname q \<noteq> pname p" by auto
    with Cons show ?thesis
      by (cases "pannotation q") simp_all
  qed
qed


lemma map_filter_cong_set:
  "(\<And>x. x \<in> set xs \<Longrightarrow> f x = g x) \<Longrightarrow> List.map_filter f xs = List.map_filter g xs"
  by (induction xs) (auto split: option.splits)

lemma filter_annotated_keys:
  "k \<notin> set (map pname ps) \<Longrightarrow>
     filter (\<lambda>kv. fst kv \<noteq> k)
       (List.map_filter (\<lambda>p. map_option (\<lambda>a. (pname p, a)) (pannotation p)) ps)
     = List.map_filter (\<lambda>p. map_option (\<lambda>a. (pname p, a)) (pannotation p)) ps"
proof (induction ps)
  case Nil
  show ?case by simp
next
  case (Cons p ps)
  then show ?case
    by (cases "pannotation p") auto
qed

lemma proposed_annotations:
  assumes "''return'' \<notin> set (map pname (f_parameters func))"
  shows "dict_del (func_annotations func) ''return'' =
           List.map_filter (\<lambda>p. map_option (\<lambda>a. (pname p, a)) (pannotation p))
             (f_parameters func)"
  using filter_annotated_keys [OF assms]
  by (simp add: dict_del_def func_annotations_def split: option.splits)

lemma cls_annotations_closed:
  assumes "record_fn func = Inr cls"
    and "''return'' \<notin> set (map pname (f_parameters func))"
  shows "cls_annotations cls =
           List.map_filter
             (\<lambda>p. map_option (\<lambda>a. (pname p, adjust_annotation (pkind p) a)) (pannotation p))
             (f_parameters func)"
proof -
  let ?ps = "f_parameters func"
  let ?proposed = "List.map_filter (\<lambda>p. map_option (\<lambda>a. (pname p, a)) (pannotation p)) ?ps"
  have d: "distinct (map pname ?ps)"
    using assms(1) by (rule record_fn_distinct_names)
  have "cls_annotations cls = build_annotations ?proposed ?ps []"
    using record_fn_InrD(7) [OF assms(1)] proposed_annotations [OF assms(2)] by simp
  also have "\<dots> = List.map_filter
             (\<lambda>p. map_option (\<lambda>a. (pname p, adjust_annotation (pkind p) a))
                    (map_of ?proposed (pname p))) ?ps"
    using d by (simp add: build_annotations_closed)
  also have "\<dots> = List.map_filter
             (\<lambda>p. map_option (\<lambda>a. (pname p, adjust_annotation (pkind p) a)) (pannotation p)) ?ps"
  proof (rule map_filter_cong_set)
    fix p assume "p \<in> set ?ps"
    then have "map_of ?proposed (pname p) = pannotation p"
      using map_of_annotated [OF d, of p "\<lambda>q a. a"] by (simp add: option.map_ident)
    then show "map_option (\<lambda>a. (pname p, adjust_annotation (pkind p) a))
                 (map_of ?proposed (pname p))
               = map_option (\<lambda>a. (pname p, adjust_annotation (pkind p) a)) (pannotation p)"
      by simp
  qed
  finally show ?thesis .
qed


lemma removeprefix_removesuffix_Unpack:
  "removesuffix (removeprefix (''Unpack['' @ s @ '']'') ''Unpack['') '']'' = s"
  by (simp add: removeprefix_def removesuffix_def startswith_def endswith_def)

lemma startswith_Unpack: "startswith (''Unpack['' @ s @ '']'') ''Unpack[''"
  by (simp add: startswith_def)

lemma cls_annotations_lookup:
  assumes "record_fn func = Inr cls" and "p \<in> set (f_parameters func)"
    and "pannotation p = Some a"
    and "''return'' \<notin> set (map pname (f_parameters func))"
  shows "map_of (cls_annotations cls) (pname p) = Some (adjust_annotation (pkind p) a)"
proof -
  have d: "distinct (map pname (f_parameters func))"
    using assms(1) by (rule record_fn_distinct_names)
  show ?thesis
    using map_of_annotated [OF d assms(2), of "\<lambda>q. adjust_annotation (pkind q)"] assms(3)
    by (simp add: cls_annotations_closed [OF assms(1) assms(4)])
qed

lemma record_fn_examples:
  "\<exists>cls. record_fn Annotated = Inr cls"
  "\<exists>cls. record_fn TextAnnotations = Inr cls"
  "\<exists>cls. record_fn TextUnpack = Inr cls"
  by (simp_all add: Annotated_def TextAnnotations_def TextUnpack_def example_simps)

text \<open>
  C4. In the annotation mapping of the generated type, a variadic-positional parameter
  annotated \<open>T\<close> maps to \<open>tuple[T]\<close>, and text \<open>s\<close> maps to the text \<open>tuple[s]\<close>; a
  variadic-keyword parameter annotated \<open>T\<close> maps to \<open>dict[str, T]\<close>, and text \<open>s\<close> to the
  text \<open>dict[str, s]\<close>, except that \<open>Unpack[T]\<close> maps to \<open>T\<close> and the text
  \<open>Unpack[s]\<close> maps to the text \<open>s\<close>. Parameters of the other kinds keep their
  annotation. (\<open>return\<close> is a keyword and names no parameter.)
\<close>

theorem variadic_annotations:
  assumes "record_fn func = Inr cls" and "p \<in> set (f_parameters func)"
    and "pannotation p = Some a"
    and "''return'' \<notin> set (map pname (f_parameters func))"
  shows "(pkind p = VAR_POSITIONAL \<longrightarrow>
            (\<forall>s. a = Text s \<longrightarrow>
               map_of (cls_annotations cls) (pname p) = Some (Text (''tuple['' @ s @ '']'')))
          \<and> ((\<forall>s. a \<noteq> Text s) \<longrightarrow>
               map_of (cls_annotations cls) (pname p) = Some (Tuple_of a)))
       \<and> (pkind p = VAR_KEYWORD \<longrightarrow>
            (\<forall>t. a = Unpack_of t \<longrightarrow> map_of (cls_annotations cls) (pname p) = Some t)
          \<and> (\<forall>s. a = Text (''Unpack['' @ s @ '']'') \<longrightarrow>
               map_of (cls_annotations cls) (pname p) = Some (Text s))
          \<and> (\<forall>s. a = Text s \<and> \<not> startswith s ''Unpack['' \<longrightarrow>
               map_of (cls_annotations cls) (pname p)
                 = Some (Text (''dict[str, '' @ s @ '']'')))
          \<and> ((\<forall>s. a \<noteq> Text s) \<and> (\<forall>t. a \<noteq> Unpack_of t) \<longrightarrow>
               map_of (cls_annotations cls) (pname p) = Some (Dict_of (Name ''str'') a)))
       \<and> (pkind p \<notin> {VAR_POSITIONAL, VAR_KEYWORD} \<longrightarrow>
            map_of (cls_annotations cls) (pname p) = Some a)"
proof -
  note look = cls_annotations_lookup [OF assms]
  have vp: "pkind p = VAR_POSITIONAL \<Longrightarrow>
              map_of (cls_annotations cls) (pname p) = Some (make_var_positional_annotation a)"
    using look by (simp add: adjust_annotation_def)
  have vk: "pkind p = VAR_KEYWORD \<Longrightarrow>
              map_of (cls_annotations cls) (pname p) = Some (make_var_keyword_annotation a)"
    using look by (simp add: adjust_annotation_def)
  have other: "pkind p \<notin> {VAR_POSITIONAL, VAR_KEYWORD} \<Longrightarrow>
              map_of (cls_annotations cls) (pname p) = Some a"
    using look by (simp add: adjust_annotation_def)
  have vp_text: "make_var_positional_annotation (Text s) = Text (''tuple['' @ s @ '']'')" for s
    by (simp add: make_var_positional_annotation_def)
  have vp_obj: "make_var_positional_annotation a = Tuple_of a" if "\<forall>s. a \<noteq> Text s"
    using that by (cases a) (simp_all add: make_var_positional_annotation_def)
  have vk_unpack: "make_var_keyword_annotation (Unpack_of t) = t" for t
    by (simp add: make_var_keyword_annotation_def)
  have vk_text_unpack:
    "make_var_keyword_annotation (Text (''Unpack['' @ s @ '']'')) = Text s" for s
    using removeprefix_removesuffix_Unpack [of s] startswith_Unpack [of s]
    by (simp add: make_var_keyword_annotation_def)
  have vk_text: "make_var_keyword_annotation (Text s) = Text (''dict[str, '' @ s @ '']'')"
    if "\<not> startswith s ''Unpack[''" for s
    using that by (simp add: make_var_keyword_annotation_def)
  have vk_obj: "make_var_keyword_annotation a = Dict_of (Name ''str'') a"
    if "\<forall>s. a \<noteq> Text s" and "\<forall>t. a \<noteq> Unpack_of t"
    using that by (cases a) (simp_all add: make_var_keyword_annotation_def)
  show ?thesis
    using vp vk other vp_text vp_obj vk_unpack vk_text_unpack vk_text vk_obj
    by (intro conjI impI allI) (simp_all del: append.simps)
qed

theorem variadic_annotations_witness:
  "(\<exists>cls. record_fn TextAnnotations = Inr cls
      \<and> map_of (cls_annotations cls) ''args'' = Some (Text ''tuple[int]''))
   \<and> (\<exists>cls. record_fn TextUnpack = Inr cls
      \<and> map_of (cls_annotations cls) ''kwargs'' = Some (Text ''TypedDict''))"
proof -
  obtain c1 where c1: "record_fn TextAnnotations = Inr c1"
    using record_fn_examples(2) by blast
  let ?p1 = "\<lparr>pname = ''args'', pkind = VAR_POSITIONAL, pdefault = None :: pyval option,
              pannotation = Some (Text ''int'')\<rparr>"
  have "map_of (cls_annotations c1) ''args'' = Some (Text ''tuple[int]'')"
    using variadic_annotations [of TextAnnotations c1 ?p1 "Text ''int''"] c1
    by (simp add: TextAnnotations_def)
  with c1 have first: "\<exists>cls. record_fn TextAnnotations = Inr cls
      \<and> map_of (cls_annotations cls) ''args'' = Some (Text ''tuple[int]'')"
    by blast
  obtain c2 where c2: "record_fn TextUnpack = Inr c2"
    using record_fn_examples(3) by blast
  let ?p2 = "\<lparr>pname = ''kwargs'', pkind = VAR_KEYWORD, pdefault = None :: pyval option,
              pannotation = Some (Text ''Unpack[TypedDict]'')\<rparr>"
  have "map_of (cls_annotations c2) ''kwargs'' = Some (Text ''TypedDict'')"
    using variadic_annotations [of TextUnpack c2 ?p2 "Text ''Unpack[TypedDict]''"] c2
    by (simp add: TextUnpack_def)
  with c2 have second: "\<exists>cls. record_fn TextUnpack = Inr cls
      \<and> map_of (cls_annotations cls) ''kwargs'' = Some (Text ''TypedDict'')"
    by blast
  from first second show ?thesis by blast
qed








section \<open>Example instances\<close>

lemmas construct_simps =
  declare_and_call_def construct_def bind_def bind_value_def bound_init_signature_def
  init_signature_def new_object_def object_setattr_def

lemma point_instance_constructed:
  "declare_and_call (point ''Point2D'' [''x'', ''y'']) [v, w] []
     = Inr (point_instance ''Point2D'' [''x'', ''y''] [v, w])"
  "declare_and_call (point ''A'' [''x'', ''y'']) [v, w] []
     = Inr (point_instance ''A'' [''x'', ''y''] [v, w])"
  "declare_and_call (point ''B'' [''y'', ''x'']) [v, w] []
     = Inr (point_instance ''B'' [''y'', ''x''] [v, w])"
  by (simp_all add: point_def point_instance_def example_simps construct_simps fun_eq_iff)


section \<open>Equality\<close>

lemma eq_loop_True_iff:
  "eq_loop ne a b order = Inr (Bool True) \<longleftrightarrow>
     (\<forall>n\<in>set order. \<exists>x y. ob_attrs a n = Some x \<and> ob_attrs b n = Some y \<and> \<not> ne x y)"
  by (induction order) (auto split: option.splits)

lemma eq_loop_False:
  assumes "\<forall>n\<in>set order. ob_attrs a n \<noteq> None"
    and "\<forall>n\<in>set order. ob_attrs b n \<noteq> None"
    and "\<exists>n\<in>set order. ne (the (ob_attrs a n)) (the (ob_attrs b n))"
  shows "eq_loop ne a b order = Inr (Bool False)"
  using assms by (induction order) (auto split: option.splits)






section \<open>Constructed instances\<close>

lemma object_setattr_frame:
  "object_setattr self a v = Inr obj \<Longrightarrow>
     ob_type_name obj = ob_type_name self \<and> ob_type_slots obj = ob_type_slots self
     \<and> ob_init_signature obj = ob_init_signature self
     \<and> ob_attrs obj = (ob_attrs self)(a \<mapsto> v)"
  by (auto simp: object_setattr_def split: option.splits if_splits)

lemma exec_body_SetAttr:
  "exec_body (map (\<lambda>p. SetAttr (pname p) (pname p)) ps) env self = Inr obj \<Longrightarrow>
     ob_type_name obj = ob_type_name self \<and> ob_type_slots obj = ob_type_slots self
     \<and> ob_init_signature obj = ob_init_signature self
     \<and> (\<forall>a. ob_attrs obj a =
            (if a \<in> set (map pname ps) then map_of env a else ob_attrs self a))
     \<and> (\<forall>p\<in>set ps. map_of env (pname p) \<noteq> None)"
proof (induction ps arbitrary: self)
  case Nil
  then show ?case by simp
next
  case (Cons p ps)
  from Cons.prems obtain v self' where
    v: "map_of env (pname p) = Some v"
    and set: "object_setattr self (pname p) v = Inr self'"
    and rest: "exec_body (map (\<lambda>p. SetAttr (pname p) (pname p)) ps) env self' = Inr obj"
    by (auto split: option.splits sum.splits)
  note frame = object_setattr_frame [OF set]
  note ih = Cons.IH [OF rest]
  show ?case
    using frame ih v by auto
qed

lemma exec_body_init_body:
  assumes "exec_body (init_body ps) env self = Inr obj"
  shows "ob_type_name obj = ob_type_name self"
    and "ob_type_slots obj = ob_type_slots self"
    and "ob_init_signature obj = ob_init_signature self"
    and "\<And>a. ob_attrs obj a =
           (if a \<in> set (map pname ps) then map_of env a else ob_attrs self a)"
    and "\<And>p. p \<in> set ps \<Longrightarrow> map_of env (pname p) \<noteq> None"
proof -
  have all: "ob_type_name obj = ob_type_name self \<and> ob_type_slots obj = ob_type_slots self
     \<and> ob_init_signature obj = ob_init_signature self
     \<and> (\<forall>a. ob_attrs obj a =
            (if a \<in> set (map pname ps) then map_of env a else ob_attrs self a))
     \<and> (\<forall>p\<in>set ps. map_of env (pname p) \<noteq> None)"
  proof (cases "ps = []")
    case True
    with assms show ?thesis by (simp add: init_body_def)
  next
    case False
    with assms show ?thesis
      using exec_body_SetAttr [of ps env self obj] by (simp add: init_body_def)
  qed
  from all show "ob_type_name obj = ob_type_name self" by simp
  from all show "ob_type_slots obj = ob_type_slots self" by simp
  from all show "ob_init_signature obj = ob_init_signature self" by simp
  from all show "\<And>a. ob_attrs obj a =
           (if a \<in> set (map pname ps) then map_of env a else ob_attrs self a)" by simp
  from all show "\<And>p. p \<in> set ps \<Longrightarrow> map_of env (pname p) \<noteq> None" by simp
qed

text \<open>
  What a constructed instance of a generated type looks like: it carries the name of
  the declaration, the parameter names as slots, an initializer with the declared
  names and kinds, and a value for every parameter name and for nothing else.
\<close>

lemma constructed_instance:
  assumes "record_fn func = Inr cls"
    and "construct mk_tuple mk_dict cls args kwargs = Inr obj"
  shows "ob_type_name obj = f_name func"
    and "ob_type_slots obj = Some (cls_slots cls)"
    and "map pname (ob_init_signature obj) = map pname (f_parameters func)"
    and "map pkind (ob_init_signature obj) = map pkind (f_parameters func)"
    and "\<And>p. p \<in> set (f_parameters func) \<Longrightarrow> ob_attrs obj (pname p) \<noteq> None"
    and "\<And>a. a \<notin> set (map pname (f_parameters func)) \<Longrightarrow> ob_attrs obj a = None"
proof -
  from assms(2) obtain env where
    body: "exec_body (cls_init_body cls) env (new_object cls) = Inr obj"
    by (auto simp: construct_def split: sum.splits)
  then have body': "exec_body (init_body (f_parameters func)) env (new_object cls) = Inr obj"
    using record_fn_InrD(6) [OF assms(1)] by simp
  note facts = exec_body_init_body [OF body']
  show "ob_type_name obj = f_name func"
    using facts(1) record_fn_InrD(4) [OF assms(1)] by (simp add: new_object_def)
  show "ob_type_slots obj = Some (cls_slots cls)"
    using facts(2) by (simp add: new_object_def)
  show "map pname (ob_init_signature obj) = map pname (f_parameters func)"
    using facts(3) bound_init_signature_names [OF assms(1)] by (simp add: new_object_def)
  show "map pkind (ob_init_signature obj) = map pkind (f_parameters func)"
    using facts(3) bound_init_signature_kinds [OF assms(1)] by (simp add: new_object_def)
  show "ob_attrs obj (pname p) \<noteq> None" if "p \<in> set (f_parameters func)" for p
    using facts(4) [of "pname p"] facts(5) [OF that] that by simp
  show "ob_attrs obj a = None" if "a \<notin> set (map pname (f_parameters func))" for a
    using facts(4) [of a] that by (simp add: new_object_def)
qed

section \<open>Immutability\<close>

text \<open>
  C3. On every constructed instance of a generated type, setting or deleting an
  attribute raises \<open>TypeError\<close> with a message that names the type and says that it
  does not support attribute assignment (deletion), and the instance is afterwards
  what it was before.
\<close>

theorem mutation_rejected:
  assumes "record_fn func = Inr cls"
    and "construct mk_tuple mk_dict cls args kwargs = Inr obj"
  shows "Record_setattr obj a v =
           (Inl (TypeError (f_name func @ '' object does not support attribute assignment'')),
            obj)
       \<and> Record_delattr obj a =
           (Inl (TypeError (f_name func @ '' object does not support attribute deletion'')),
            obj)
       \<and> ob_attrs (snd (Record_setattr obj a v)) = ob_attrs obj
       \<and> ob_attrs (snd (Record_delattr obj a)) = ob_attrs obj"
  using constructed_instance(1) [OF assms]
  by (simp add: Record_setattr_def Record_delattr_def)

theorem mutation_rejected_witness:
  "\<exists>cls obj. record_fn (point ''Example'' [''x'', ''y'']) = Inr cls
     \<and> construct VTuple VDict cls [VInt 1, VInt 0] [] = Inr obj
     \<and> Record_setattr obj ''x'' (VInt 2) =
         (Inl (TypeError ''Example object does not support attribute assignment''), obj)
     \<and> Record_delattr obj ''x'' =
         (Inl (TypeError ''Example object does not support attribute deletion''), obj)
     \<and> ob_attrs obj ''x'' = Some (VInt 1)"
proof -
  have "declare_and_call (point ''Example'' [''x'', ''y'']) [VInt 1, VInt 0] []
          = Inr (point_instance ''Example'' [''x'', ''y''] [VInt 1, VInt 0])"
    by (simp add: point_def point_instance_def example_simps construct_simps fun_eq_iff)
  then obtain cls where c: "record_fn (point ''Example'' [''x'', ''y'']) = Inr cls"
    and o: "construct VTuple VDict cls [VInt 1, VInt 0] []
              = Inr (point_instance ''Example'' [''x'', ''y''] [VInt 1, VInt 0])"
    by (auto simp: declare_and_call_def split: sum.splits)
  from mutation_rejected [OF c o, of "''x''" "VInt 2"]
  have "Record_setattr (point_instance ''Example'' [''x'', ''y''] [VInt 1, VInt 0]) ''x'' (VInt 2) =
         (Inl (TypeError ''Example object does not support attribute assignment''),
          point_instance ''Example'' [''x'', ''y''] [VInt 1, VInt 0])
     \<and> Record_delattr (point_instance ''Example'' [''x'', ''y''] [VInt 1, VInt 0]) ''x'' =
         (Inl (TypeError ''Example object does not support attribute deletion''),
          point_instance ''Example'' [''x'', ''y''] [VInt 1, VInt 0])"
    by (simp add: point_def)
  moreover have "ob_attrs (point_instance ''Example'' [''x'', ''y''] [VInt 1, VInt 0]) ''x''
                   = Some (VInt 1)"
    by (simp add: point_instance_def)
  ultimately show ?thesis using c o by blast
qed

section \<open>Representation\<close>

lemma repr_loop_closed:
  "\<forall>q\<in>set sig. ob_attrs self (pname q) \<noteq> None \<Longrightarrow>
     repr_loop vrepr self sig acc =
       Inr (acc @ map (\<lambda>q. case pkind q of
                          POSITIONAL_ONLY \<Rightarrow> vrepr (the (ob_attrs self (pname q)))
                        | POSITIONAL_OR_KEYWORD \<Rightarrow>
                            pname q @ ''='' @ vrepr (the (ob_attrs self (pname q)))
                        | KEYWORD_ONLY \<Rightarrow>
                            pname q @ ''='' @ vrepr (the (ob_attrs self (pname q)))
                        | VAR_POSITIONAL \<Rightarrow> ''*'' @ vrepr (the (ob_attrs self (pname q)))
                        | VAR_KEYWORD \<Rightarrow> ''**'' @ vrepr (the (ob_attrs self (pname q)))) sig)"
proof (induction sig arbitrary: acc)
  case Nil
  show ?case by simp
next
  case (Cons q sig)
  from Cons.prems obtain v where v: "ob_attrs self (pname q) = Some v" by auto
  from Cons.prems have "\<forall>q\<in>set sig. ob_attrs self (pname q) \<noteq> None" by simp
  note ih = Cons.IH [OF this]
  show ?case
    by (simp add: v ih Let_def split: kind.splits)
qed

lemma AllParameterTypes_constructed:
  "declare_and_call AllParameterTypes [VFloat 1, VInt 2, VInt 3, VInt 4]
      [(''kw'', VStr ''5''), (''extra'', VInt 6)] =
    Inr \<lparr>ob_type_name = ''AllParameterTypes'',
         ob_type_slots = Some (SlotTuple [''pos'', ''pos_kw'', ''args'', ''kw'', ''kwargs'']),
         ob_init_signature = f_parameters AllParameterTypes,
         ob_attrs = [''pos'' \<mapsto> VFloat 1, ''pos_kw'' \<mapsto> VInt 2,
                     ''args'' \<mapsto> VTuple [VInt 3, VInt 4], ''kw'' \<mapsto> VStr ''5'',
                     ''kwargs'' \<mapsto> VDict [(''extra'', VInt 6)]]\<rparr>"
  by (simp add: AllParameterTypes_def example_simps construct_simps fun_eq_iff)

lemma AllParameterTypes_repr:
  "Record_repr py_repr
     \<lparr>ob_type_name = ''AllParameterTypes'',
      ob_type_slots = Some (SlotTuple [''pos'', ''pos_kw'', ''args'', ''kw'', ''kwargs'']),
      ob_init_signature = f_parameters AllParameterTypes,
      ob_attrs = [''pos'' \<mapsto> VFloat 1, ''pos_kw'' \<mapsto> VInt 2,
                  ''args'' \<mapsto> VTuple [VInt 3, VInt 4], ''kw'' \<mapsto> VStr ''5'',
                  ''kwargs'' \<mapsto> VDict [(''extra'', VInt 6)]]\<rparr>
   = Inr (''AllParameterTypes(1.0, pos_kw=2, *(3, 4), kw='' @ [sq] @ ''5'' @ [sq]
          @ '', **{'' @ [sq] @ ''extra'' @ [sq] @ '': 6})'')"
  by (simp add: Record_repr_def AllParameterTypes_def repr_str_def show_int_def
      show_nat.simps digit_def)


text \<open>
  C5. The representation of a constructed instance is the name of the type followed,
  in parentheses and separated by a comma and a space, by one part per parameter of the
  initializer, in order: the bare \<open>repr\<close> of the value for a positional-only parameter,
  \<open>name=value\<close> for a positional-or-keyword or keyword-only parameter, \<open>*value\<close> for
  the variadic-positional parameter and \<open>**value\<close> for the variadic-keyword parameter.
  The instance of \<open>AllParameterTypes\<close> built from
  \<open>(1.0, 2, 3, 4, kw="5", extra=6)\<close> reads
  \<open>AllParameterTypes(1.0, pos_kw=2, *(3, 4), kw='5', **{'extra': 6})\<close>.
\<close>

theorem repr_renders_parameters:
  "(record_fn func = Inr cls \<and> construct mk_tuple mk_dict cls args kwargs = Inr obj \<longrightarrow>
      (\<exists>parts. Record_repr vrepr obj = Inr (f_name func @ ''('' @ join '', '' parts @ '')'')
         \<and> length parts = length (f_parameters func)
         \<and> (\<forall>i<length (f_parameters func).
               (pkind (f_parameters func ! i) = POSITIONAL_ONLY \<longrightarrow>
                  parts ! i = vrepr (the (ob_attrs obj (pname (f_parameters func ! i)))))
             \<and> (pkind (f_parameters func ! i) = POSITIONAL_OR_KEYWORD
                  \<or> pkind (f_parameters func ! i) = KEYWORD_ONLY \<longrightarrow>
                  parts ! i = pname (f_parameters func ! i) @ ''=''
                    @ vrepr (the (ob_attrs obj (pname (f_parameters func ! i)))))
             \<and> (pkind (f_parameters func ! i) = VAR_POSITIONAL \<longrightarrow>
                  parts ! i = ''*'' @ vrepr (the (ob_attrs obj (pname (f_parameters func ! i)))))
             \<and> (pkind (f_parameters func ! i) = VAR_KEYWORD \<longrightarrow>
                  parts ! i
                    = ''**'' @ vrepr (the (ob_attrs obj (pname (f_parameters func ! i))))))))
   \<and> (\<exists>ins. declare_and_call AllParameterTypes [VFloat 1, VInt 2, VInt 3, VInt 4]
                [(''kw'', VStr ''5''), (''extra'', VInt 6)] = Inr ins
         \<and> Record_repr py_repr ins =
             Inr (''AllParameterTypes(1.0, pos_kw=2, *(3, 4), kw='' @ [sq] @ ''5'' @ [sq]
                  @ '', **{'' @ [sq] @ ''extra'' @ [sq] @ '': 6})''))"
proof (intro conjI impI)
  assume a: "record_fn func = Inr cls \<and> construct mk_tuple mk_dict cls args kwargs = Inr obj"
  then have c: "record_fn func = Inr cls"
    and o: "construct mk_tuple mk_dict cls args kwargs = Inr obj" by simp_all
  let ?ps = "f_parameters func"
  let ?sig = "ob_init_signature obj"
  let ?render = "\<lambda>q. case pkind q of
                          POSITIONAL_ONLY \<Rightarrow> vrepr (the (ob_attrs obj (pname q)))
                        | POSITIONAL_OR_KEYWORD \<Rightarrow>
                            pname q @ ''='' @ vrepr (the (ob_attrs obj (pname q)))
                        | KEYWORD_ONLY \<Rightarrow>
                            pname q @ ''='' @ vrepr (the (ob_attrs obj (pname q)))
                        | VAR_POSITIONAL \<Rightarrow> ''*'' @ vrepr (the (ob_attrs obj (pname q)))
                        | VAR_KEYWORD \<Rightarrow> ''**'' @ vrepr (the (ob_attrs obj (pname q)))"
  note inst = constructed_instance [OF c o]
  have names: "map pname ?sig = map pname ?ps" and kinds: "map pkind ?sig = map pkind ?ps"
    using inst(3,4) by simp_all
  have len: "length ?sig = length ?ps"
    using names by (metis length_map)
  have present: "\<forall>q\<in>set ?sig. ob_attrs obj (pname q) \<noteq> None"
  proof
    fix q assume "q \<in> set ?sig"
    then have "pname q \<in> set (map pname ?ps)" using names by (metis image_eqI set_map)
    then obtain p where "p \<in> set ?ps" and "pname p = pname q" by auto
    then show "ob_attrs obj (pname q) \<noteq> None" using inst(5) [of p] by simp
  qed
  have loop: "repr_loop vrepr obj ?sig [] = Inr (map ?render ?sig)"
    using repr_loop_closed [OF present, of vrepr "[]"] by simp
  have repr: "Record_repr vrepr obj = Inr (f_name func @ ''('' @ join '', '' (map ?render ?sig) @ '')'')"
    using loop inst(1) by (simp add: Record_repr_def)
  have nth: "pname (?sig ! i) = pname (?ps ! i) \<and> pkind (?sig ! i) = pkind (?ps ! i)"
    if "i < length ?ps" for i
  proof -
    from that len have i: "i < length ?sig" by simp
    have "pname (?sig ! i) = map pname ?sig ! i" using i by simp
    also have "\<dots> = pname (?ps ! i)" using names that by simp
    finally have n: "pname (?sig ! i) = pname (?ps ! i)" .
    have "pkind (?sig ! i) = map pkind ?sig ! i" using i by simp
    also have "\<dots> = pkind (?ps ! i)" using kinds that by simp
    finally show ?thesis using n by simp
  qed
  have parts: "map ?render ?sig ! i = ?render (?sig ! i)" if "i < length ?ps" for i
    using that len by simp
  show "\<exists>parts. Record_repr vrepr obj = Inr (f_name func @ ''('' @ join '', '' parts @ '')'')
         \<and> length parts = length ?ps
         \<and> (\<forall>i<length ?ps.
               (pkind (?ps ! i) = POSITIONAL_ONLY \<longrightarrow>
                  parts ! i = vrepr (the (ob_attrs obj (pname (?ps ! i)))))
             \<and> (pkind (?ps ! i) = POSITIONAL_OR_KEYWORD \<or> pkind (?ps ! i) = KEYWORD_ONLY \<longrightarrow>
                  parts ! i = pname (?ps ! i) @ ''=''
                    @ vrepr (the (ob_attrs obj (pname (?ps ! i)))))
             \<and> (pkind (?ps ! i) = VAR_POSITIONAL \<longrightarrow>
                  parts ! i = ''*'' @ vrepr (the (ob_attrs obj (pname (?ps ! i)))))
             \<and> (pkind (?ps ! i) = VAR_KEYWORD \<longrightarrow>
                  parts ! i = ''**'' @ vrepr (the (ob_attrs obj (pname (?ps ! i))))))"
  proof (intro exI [of _ "map ?render ?sig"] conjI allI impI)
    show "Record_repr vrepr obj = Inr (f_name func @ ''('' @ join '', '' (map ?render ?sig) @ '')'')"
      by (rule repr)
    show "length (map ?render ?sig) = length ?ps" using len by simp
  next
    fix i assume i: "i < length ?ps" and k: "pkind (?ps ! i) = POSITIONAL_ONLY"
    show "map ?render ?sig ! i = vrepr (the (ob_attrs obj (pname (?ps ! i))))"
      using parts [OF i] nth [OF i] k by simp
  next
    fix i assume i: "i < length ?ps"
      and k: "pkind (?ps ! i) = POSITIONAL_OR_KEYWORD \<or> pkind (?ps ! i) = KEYWORD_ONLY"
    show "map ?render ?sig ! i
            = pname (?ps ! i) @ ''='' @ vrepr (the (ob_attrs obj (pname (?ps ! i))))"
      using parts [OF i] nth [OF i] k by auto
  next
    fix i assume i: "i < length ?ps" and k: "pkind (?ps ! i) = VAR_POSITIONAL"
    show "map ?render ?sig ! i = ''*'' @ vrepr (the (ob_attrs obj (pname (?ps ! i))))"
      using parts [OF i] nth [OF i] k by simp
  next
    fix i assume i: "i < length ?ps" and k: "pkind (?ps ! i) = VAR_KEYWORD"
    show "map ?render ?sig ! i = ''**'' @ vrepr (the (ob_attrs obj (pname (?ps ! i))))"
      using parts [OF i] nth [OF i] k by simp
  qed
next
  show "\<exists>ins. declare_and_call AllParameterTypes [VFloat 1, VInt 2, VInt 3, VInt 4]
                [(''kw'', VStr ''5''), (''extra'', VInt 6)] = Inr ins
         \<and> Record_repr py_repr ins =
             Inr (''AllParameterTypes(1.0, pos_kw=2, *(3, 4), kw='' @ [sq] @ ''5'' @ [sq]
                  @ '', **{'' @ [sq] @ ''extra'' @ [sq] @ '': 6})'')"
    using AllParameterTypes_constructed AllParameterTypes_repr by blast
qed

theorem repr_renders_parameters_witness:
  "\<exists>cls obj. record_fn (point ''Point2D'' [''x'', ''y'']) = Inr cls
     \<and> construct VTuple VDict cls [VFloat 2, VFloat 3] [] = Inr obj
     \<and> Record_repr py_repr obj = Inr ''Point2D(x=2.0, y=3.0)''"
proof -
  let ?obj = "point_instance ''Point2D'' [''x'', ''y''] [VFloat 2, VFloat 3]"
  obtain cls where c: "record_fn (point ''Point2D'' [''x'', ''y'']) = Inr cls"
    and o: "construct VTuple VDict cls [VFloat 2, VFloat 3] [] = Inr ?obj"
    using point_instance_constructed(1) [of "VFloat 2" "VFloat 3"]
    by (auto simp: declare_and_call_def split: sum.splits)
  from repr_renders_parameters [of "point ''Point2D'' [''x'', ''y'']" cls VTuple VDict
      "[VFloat 2, VFloat 3]" "[]" ?obj py_repr]
  obtain parts where
    "Record_repr py_repr ?obj = Inr (''Point2D'' @ ''('' @ join '', '' parts @ '')'')"
    using c o by (auto simp: point_def)
  moreover have "Record_repr py_repr ?obj = Inr ''Point2D(x=2.0, y=3.0)''"
    by (simp add: Record_repr_def point_instance_def show_int_def show_nat.simps digit_def)
  ultimately show ?thesis using c o by blast
qed

section \<open>Hashing\<close>

lemma cls_slots_closed:
  assumes "record_fn func = Inr cls"
    and "\<forall>p\<in>set (f_parameters func). plain_name (pname p)"
  shows "cls_slots cls = SlotTuple (map pname (f_parameters func))"
  using record_fn_InrD(3) [OF assms(1)] eval_slots_text [OF assms(2)] by simp

lemma getattrs_closed:
  "\<forall>n\<in>set names. ob_attrs self n \<noteq> None \<Longrightarrow>
     getattrs self names = Inr (map (\<lambda>n. the (ob_attrs self n)) names)"
  by (induction names) auto

lemma hash_items_cong_values:
  "list_all2 (\<lambda>x y. vhash x = vhash y) xs ys \<Longrightarrow> hash_items vhash xs = hash_items vhash ys"
  by (induction xs ys rule: list_all2_induct) (simp_all split: sum.splits)

lemma py_hash_items_eq:
  "list_all2 (\<lambda>x y. py_hash sh x = py_hash sh y) xs ys \<Longrightarrow>
     py_hash_items sh xs = py_hash_items sh ys"
  by (induction xs ys rule: list_all2_induct) (simp_all split: sum.splits)

lemma py_hash_contract: "py_eq x y \<Longrightarrow> py_hash sh x = py_hash sh y"
proof (induction x y rule: py_eq.induct)
  case (6 xs ys)
  from "6.prems" have "list_all2 py_eq xs ys" by simp
  then have "list_all2 (\<lambda>x y. py_hash sh x = py_hash sh y) xs ys"
    using "6.IH" by (auto simp: list_all2_conv_all_nth)
  then have "py_hash_items sh xs = py_hash_items sh ys"
    by (rule py_hash_items_eq)
  then show ?case by simp
qed simp_all

lemma Record_hash_constructed:
  assumes "record_fn func = Inr cls"
    and "\<forall>p\<in>set (f_parameters func). plain_name (pname p)"
    and "construct mk_tuple mk_dict cls args kwargs = Inr a"
  shows "Record_hash vhash combine a =
           hash_tuple vhash combine (map (\<lambda>p. the (ob_attrs a (pname p))) (f_parameters func))"
proof -
  note inst = constructed_instance [OF assms(1,3)]
  have slots: "ob_type_slots a = Some (SlotTuple (map pname (f_parameters func)))"
    using inst(2) cls_slots_closed [OF assms(1,2)] by simp
  have "\<forall>n\<in>set (map pname (f_parameters func)). ob_attrs a n \<noteq> None"
    using inst(5) by auto
  then have "getattrs a (map pname (f_parameters func))
               = Inr (map (\<lambda>n. the (ob_attrs a n)) (map pname (f_parameters func)))"
    by (rule getattrs_closed)
  then show ?thesis
    using slots by (simp add: Record_hash_def comp_def)
qed


text \<open>
  C8. The hash of a constructed instance is the hash of the tuple of its field values
  taken in declared order. Two instances of the same generated type whose field values
  compare equal pairwise are equal and, when \<open>hash\<close> on values respects their equality,
  have the same hash; two instances of the same type with a field whose values compare
  unequal are not equal. Here \<open>order\<close> is any iteration order of the field-name set.
\<close>

theorem hash_in_field_order:
  assumes "record_fn func = Inr cls"
    and "\<forall>p\<in>set (f_parameters func). plain_name (pname p)"
    and "construct mk_tuple mk_dict cls args kwargs = Inr a"
    and "construct mk_tuple mk_dict cls args' kwargs' = Inr b"
    and "iteration_order (map pname (f_parameters func)) order"
  shows "Record_hash vhash combine a =
           hash_tuple vhash combine (map (\<lambda>p. the (ob_attrs a (pname p))) (f_parameters func))
       \<and> ((\<forall>p\<in>set (f_parameters func).
              \<not> ne (the (ob_attrs a (pname p))) (the (ob_attrs b (pname p))))
            \<and> (\<forall>x y. \<not> ne x y \<longrightarrow> vhash x = vhash y) \<longrightarrow>
            Record_eq ne order a b = Inr (Bool True)
            \<and> Record_hash vhash combine a = Record_hash vhash combine b)
       \<and> ((\<exists>p\<in>set (f_parameters func).
              ne (the (ob_attrs a (pname p))) (the (ob_attrs b (pname p)))) \<longrightarrow>
            Record_eq ne order a b = Inr (Bool False))"
proof -
  let ?ps = "f_parameters func"
  let ?names = "map pname ?ps"
  note ia = constructed_instance [OF assms(1,3)]
  note ib = constructed_instance [OF assms(1,4)]
  have ha: "Record_hash vhash combine a =
              hash_tuple vhash combine (map (\<lambda>p. the (ob_attrs a (pname p))) ?ps)"
    using assms(1,2,3) by (rule Record_hash_constructed)
  have hb: "Record_hash vhash combine b =
              hash_tuple vhash combine (map (\<lambda>p. the (ob_attrs b (pname p))) ?ps)"
    using assms(1,2,4) by (rule Record_hash_constructed)
  have slots: "cls_slots cls = SlotTuple ?names"
    using assms(1,2) by (rule cls_slots_closed)
  have order: "set order = set ?names"
    using assms(5) by (simp add: iteration_order_def)
  have loop: "Record_eq ne order a b = eq_loop ne a b order"
    using ia(2) ib(2) slots by (simp add: Record_eq_def attrs_of_type_def)
  have pa: "\<forall>n\<in>set order. ob_attrs a n \<noteq> None" using ia(5) order by auto
  have pb: "\<forall>n\<in>set order. ob_attrs b n \<noteq> None" using ib(5) order by auto
  have equal: "Record_eq ne order a b = Inr (Bool True)
                 \<and> Record_hash vhash combine a = Record_hash vhash combine b"
    if same: "\<forall>p\<in>set ?ps. \<not> ne (the (ob_attrs a (pname p))) (the (ob_attrs b (pname p)))"
      and contract: "\<forall>x y. \<not> ne x y \<longrightarrow> vhash x = vhash y"
  proof
    have "\<forall>n\<in>set order. \<exists>x y. ob_attrs a n = Some x \<and> ob_attrs b n = Some y \<and> \<not> ne x y"
    proof
      fix n assume n: "n \<in> set order"
      with order obtain p where p: "p \<in> set ?ps" and np: "n = pname p" by auto
      from pa pb n obtain x y where "ob_attrs a n = Some x" and "ob_attrs b n = Some y"
        by (meson not_Some_eq)
      with same p np show "\<exists>x y. ob_attrs a n = Some x \<and> ob_attrs b n = Some y \<and> \<not> ne x y"
        by auto
    qed
    then show "Record_eq ne order a b = Inr (Bool True)"
      using loop eq_loop_True_iff [of ne a b order] by simp
    have "list_all2 (\<lambda>x y. vhash x = vhash y)
            (map (\<lambda>p. the (ob_attrs a (pname p))) ?ps)
            (map (\<lambda>p. the (ob_attrs b (pname p))) ?ps)"
      using same contract by (simp add: list_all2_conv_all_nth)
    then have "hash_items vhash (map (\<lambda>p. the (ob_attrs a (pname p))) ?ps)
                 = hash_items vhash (map (\<lambda>p. the (ob_attrs b (pname p))) ?ps)"
      by (rule hash_items_cong_values)
    then show "Record_hash vhash combine a = Record_hash vhash combine b"
      using ha hb by (simp add: hash_tuple_def)
  qed
  have unequal: "Record_eq ne order a b = Inr (Bool False)"
    if "\<exists>p\<in>set ?ps. ne (the (ob_attrs a (pname p))) (the (ob_attrs b (pname p)))"
  proof -
    from that order
    have "\<exists>n\<in>set order. ne (the (ob_attrs a n)) (the (ob_attrs b n))" by auto
    with pa pb show ?thesis
      using loop eq_loop_False [of order a b ne] by simp
  qed
  show ?thesis
    using ha equal unequal by blast
qed

theorem hash_in_field_order_witness:
  "\<exists>cls a b c. record_fn (point ''Point2D'' [''x'', ''y'']) = Inr cls
     \<and> construct VTuple VDict cls [VFloat 2, VFloat 3] [] = Inr a
     \<and> construct VTuple VDict cls [VInt 2, VInt 3] [] = Inr b
     \<and> construct VTuple VDict cls [VFloat 2, VFloat 4] [] = Inr c
     \<and> Record_eq py_ne [''y'', ''x''] a b = Inr (Bool True)
     \<and> Record_hash (py_hash (\<lambda>s. 0)) tuplehash a = Record_hash (py_hash (\<lambda>s. 0)) tuplehash b
     \<and> Record_eq py_ne [''y'', ''x''] a c = Inr (Bool False)"
proof -
  let ?f = "point ''Point2D'' [''x'', ''y'']"
  let ?a = "point_instance ''Point2D'' [''x'', ''y''] [VFloat 2, VFloat 3]"
  let ?b = "point_instance ''Point2D'' [''x'', ''y''] [VInt 2, VInt 3]"
  let ?c = "point_instance ''Point2D'' [''x'', ''y''] [VFloat 2, VFloat 4]"
  obtain cls where cls: "record_fn ?f = Inr cls"
    and a: "construct VTuple VDict cls [VFloat 2, VFloat 3] [] = Inr ?a"
    using point_instance_constructed(1) [of "VFloat 2" "VFloat 3"]
    by (auto simp: declare_and_call_def split: sum.splits)
  have b: "construct VTuple VDict cls [VInt 2, VInt 3] [] = Inr ?b"
    using point_instance_constructed(1) [of "VInt 2" "VInt 3"] cls
    by (simp add: declare_and_call_def)
  have c: "construct VTuple VDict cls [VFloat 2, VFloat 4] [] = Inr ?c"
    using point_instance_constructed(1) [of "VFloat 2" "VFloat 4"] cls
    by (simp add: declare_and_call_def)
  have plain: "\<forall>p\<in>set (f_parameters ?f). plain_name (pname p)"
    by (simp add: point_def plain_name_def)
  have order: "iteration_order (map pname (f_parameters ?f)) [''y'', ''x'']"
    by (auto simp: point_def iteration_order_def)
  have contract: "\<forall>x y. \<not> py_ne x y \<longrightarrow> py_hash (\<lambda>s. 0) x = py_hash (\<lambda>s. 0) y"
    by (simp add: py_ne_def py_hash_contract)
  have same: "\<forall>p\<in>set (f_parameters ?f).
                \<not> py_ne (the (ob_attrs ?a (pname p))) (the (ob_attrs ?b (pname p)))"
    by (simp add: point_def point_instance_def py_ne_def)
  have differ: "\<exists>p\<in>set (f_parameters ?f).
                py_ne (the (ob_attrs ?a (pname p))) (the (ob_attrs ?c (pname p)))"
    by (simp add: point_def point_instance_def py_ne_def)
  have "Record_eq py_ne [''y'', ''x''] ?a ?b = Inr (Bool True)
        \<and> Record_hash (py_hash (\<lambda>s. 0)) tuplehash ?a
            = Record_hash (py_hash (\<lambda>s. 0)) tuplehash ?b"
    using hash_in_field_order [OF cls plain a b order, of "py_hash (\<lambda>s. 0)" tuplehash py_ne]
      same contract by blast
  moreover have "Record_eq py_ne [''y'', ''x''] ?a ?c = Inr (Bool False)"
    using hash_in_field_order [OF cls plain a c order, of "py_hash (\<lambda>s. 0)" tuplehash py_ne]
      differ by blast
  ultimately show ?thesis using cls a b c by blast
qed

section \<open>Equal instances with different hashes\<close>

text \<open>
  C10. There are two record instances that compare equal and have different hashes.
  \<open>A\<close> declares the fields \<open>(x, y)\<close> and \<open>B\<close> declares \<open>(y, x)\<close>; \<open>A(1, 2)\<close> and
  \<open>B(2, 1)\<close> hold \<open>x = 1\<close> and \<open>y = 2\<close> both. Each compares equal to the other,
  in whichever order the field names are visited, while the hash of the first is that
  of the tuple \<open>(1, 2)\<close> and the hash of the second that of \<open>(2, 1)\<close>.
\<close>

theorem equal_instances_different_hashes:
  "declare_and_call (point ''A'' [''x'', ''y'']) [VInt 1, VInt 2] []
     = Inr (point_instance ''A'' [''x'', ''y''] [VInt 1, VInt 2])
   \<and> declare_and_call (point ''B'' [''y'', ''x'']) [VInt 2, VInt 1] []
     = Inr (point_instance ''B'' [''y'', ''x''] [VInt 2, VInt 1])
   \<and> Record_eq py_ne [''x'', ''y''] (point_instance ''A'' [''x'', ''y''] [VInt 1, VInt 2])
        (point_instance ''B'' [''y'', ''x''] [VInt 2, VInt 1]) = Inr (Bool True)
   \<and> Record_eq py_ne [''y'', ''x''] (point_instance ''A'' [''x'', ''y''] [VInt 1, VInt 2])
        (point_instance ''B'' [''y'', ''x''] [VInt 2, VInt 1]) = Inr (Bool True)
   \<and> Record_eq py_ne [''x'', ''y''] (point_instance ''B'' [''y'', ''x''] [VInt 2, VInt 1])
        (point_instance ''A'' [''x'', ''y''] [VInt 1, VInt 2]) = Inr (Bool True)
   \<and> Record_eq py_ne [''y'', ''x''] (point_instance ''B'' [''y'', ''x''] [VInt 2, VInt 1])
        (point_instance ''A'' [''x'', ''y''] [VInt 1, VInt 2]) = Inr (Bool True)
   \<and> Record_hash (py_hash str_hash) tuplehash
        (point_instance ''A'' [''x'', ''y''] [VInt 1, VInt 2])
       = Inr (word_of_int (- 3550055125485641917))
   \<and> Record_hash (py_hash str_hash) tuplehash
        (point_instance ''B'' [''y'', ''x''] [VInt 2, VInt 1])
       = Inr (word_of_int 6794810172467074373)
   \<and> Record_hash (py_hash str_hash) tuplehash
        (point_instance ''A'' [''x'', ''y''] [VInt 1, VInt 2])
       \<noteq> Record_hash (py_hash str_hash) tuplehash
           (point_instance ''B'' [''y'', ''x''] [VInt 2, VInt 1])"
proof -
  have eqs: "Record_eq py_ne [''x'', ''y''] (point_instance ''A'' [''x'', ''y''] [VInt 1, VInt 2])
        (point_instance ''B'' [''y'', ''x''] [VInt 2, VInt 1]) = Inr (Bool True)"
    "Record_eq py_ne [''y'', ''x''] (point_instance ''A'' [''x'', ''y''] [VInt 1, VInt 2])
        (point_instance ''B'' [''y'', ''x''] [VInt 2, VInt 1]) = Inr (Bool True)"
    "Record_eq py_ne [''x'', ''y''] (point_instance ''B'' [''y'', ''x''] [VInt 2, VInt 1])
        (point_instance ''A'' [''x'', ''y''] [VInt 1, VInt 2]) = Inr (Bool True)"
    "Record_eq py_ne [''y'', ''x''] (point_instance ''B'' [''y'', ''x''] [VInt 2, VInt 1])
        (point_instance ''A'' [''x'', ''y''] [VInt 1, VInt 2]) = Inr (Bool True)"
    by (simp_all add: Record_eq_def attrs_of_type_def point_instance_def py_ne_def
        insert_commute)
  have ha: "Record_hash (py_hash str_hash) tuplehash
        (point_instance ''A'' [''x'', ''y''] [VInt 1, VInt 2])
       = Inr (word_of_int (- 3550055125485641917))"
    by (simp add: Record_hash_def point_instance_def hash_tuple_def tuplehash_def
        tuplehash_step_def xxrotate_def hash_int_def)
  have hb: "Record_hash (py_hash str_hash) tuplehash
        (point_instance ''B'' [''y'', ''x''] [VInt 2, VInt 1])
       = Inr (word_of_int 6794810172467074373)"
    by (simp add: Record_hash_def point_instance_def hash_tuple_def tuplehash_def
        tuplehash_step_def xxrotate_def hash_int_def)
  have "Record_hash (py_hash str_hash) tuplehash
        (point_instance ''A'' [''x'', ''y''] [VInt 1, VInt 2])
       \<noteq> Record_hash (py_hash str_hash) tuplehash
           (point_instance ''B'' [''y'', ''x''] [VInt 2, VInt 1])"
    unfolding ha hb by simp
  with eqs ha hb point_instance_constructed(2) [of "VInt 1" "VInt 2"]
    point_instance_constructed(3) [of "VInt 2" "VInt 1"]
  show ?thesis by blast
qed

section \<open>Which declarations \<open>record\<close> accepts\<close>

lemma Signature_validate_error:
  "Signature_validate ps tk seen names = Inl e \<Longrightarrow> \<exists>m. e = ValueError m"
  by (induction ps arbitrary: tk seen names) (auto split: if_splits)

lemma record_fn_TypeError_iff:
  "(\<exists>m. record_fn func = Inl (TypeError m))
     \<longleftrightarrow> f_return_annotation func \<notin> {None, Some NoneObject}"
proof
  assume "\<exists>m. record_fn func = Inl (TypeError m)"
  then obtain m where m: "record_fn func = Inl (TypeError m)" by blast
  show "f_return_annotation func \<notin> {None, Some NoneObject}"
  proof (rule ccontr)
    assume "\<not> f_return_annotation func \<notin> {None, Some NoneObject}"
    with m show False
      by (auto simp: record_fn_def Signature_replace_def
          split: sum.splits option.splits dest: Signature_validate_error)
  qed
next
  assume "f_return_annotation func \<notin> {None, Some NoneObject}"
  then show "\<exists>m. record_fn func = Inl (TypeError m)"
    by (simp add: record_fn_def return_annotation_error_def)
qed

lemma record_fn_return_annotation_error_iff:
  "record_fn func = Inl return_annotation_error
     \<longleftrightarrow> f_return_annotation func \<notin> {None, Some NoneObject}"
  using record_fn_TypeError_iff [of func]
  by (auto simp: record_fn_def return_annotation_error_def)

text \<open>
  X1. \<open>record\<close> raises a \<open>TypeError\<close> exactly when the return annotation is present
  and is not \<open>None\<close>, and the error is then the one about the return annotation.
\<close>

theorem return_annotation_gate:
  "((\<exists>m. record_fn func = Inl (TypeError m))
      \<longleftrightarrow> f_return_annotation func \<notin> {None, Some NoneObject})
   \<and> (record_fn func = Inl return_annotation_error
      \<longleftrightarrow> f_return_annotation func \<notin> {None, Some NoneObject})"
  using record_fn_TypeError_iff [of func] record_fn_return_annotation_error_iff [of func]
  by blast

text \<open>
  C7. The \<open>TypeError\<close> for the return annotation is raised exactly when the annotation
  is present and not \<open>None\<close>. But not every other declaration is accepted:
  \<open>def R(self) -> None\<close> has an allowed return annotation and is rejected with a
  \<open>ValueError\<close>, because the parameter list of the generated initializer is \<open>self\<close>
  followed by the declared parameters and \<open>Signature.replace\<close> refuses the repeated
  name.
\<close>

theorem record_rejects_parameter_named_self:
  "f_return_annotation (point ''R'' [''self'']) = Some NoneObject
   \<and> record_fn (point ''R'' [''self''])
       = Inl (ValueError (''duplicate parameter name: '' @ [sq] @ ''self'' @ [sq]))"
  by (simp add: point_def example_simps)

end
